theory Spec2Isabelle
  imports Complex_Main
begin

section \<open>Lecture Eight: Lagrange and natural cubic spline interpolation\<close>

text \<open>
  A shallow embedding of the code cells of \<^verbatim>\<open>Lecture/Lecture_Eight_Interpolation.ipynb\<close>.
  NumPy float arrays are lists of reals (exact arithmetic), every exception of the
  Python is a value of \<open>error\<close>, and the names the functions read from the notebook's
  module namespace are fields of the record \<open>globals\<close>.

  The notebook was run under Python 2 (its recorded output comes from an Anaconda2
  installation), where \<^verbatim>\<open>xrange\<close> exists.
\<close>

subsection \<open>Errors, the notebook's namespace, and the NumPy operations used\<close>

datatype error = NameError | ValueError | IndexError | NonFinite

text \<open>
  \<open>NonFinite\<close> is not a Python exception: a float array division by zero goes on with
  \<^verbatim>\<open>inf\<close> or \<^verbatim>\<open>nan\<close> (and a warning), values the reals do not have. The model
  stops there with \<open>Inl NonFinite\<close>, so it says nothing of what the code returns when two
  consecutive nodes coincide: every statement below about a run of \<^verbatim>\<open>spline_maker\<close> is
  about nodes on which the divisions are finite.
\<close>

record globals =
  ivals :: "real list option"
  ipoly :: "real list option"

text \<open>The namespace after the import cell: neither name is bound.\<close>

definition fresh_kernel :: globals where
  "fresh_kernel = \<lparr>ivals = None, ipoly = None\<rparr>"

definition bind_e :: "error + 'a \<Rightarrow> ('a \<Rightarrow> error + 'b) \<Rightarrow> error + 'b" where
  "bind_e m f = (case m of Inl e \<Rightarrow> Inl e | Inr x \<Rightarrow> f x)"

text \<open>Elementwise binary operations on one-dimensional arrays, with NumPy's broadcasting.\<close>

definition np_broadcast :: "('a \<Rightarrow> 'b \<Rightarrow> 'c) \<Rightarrow> 'a list \<Rightarrow> 'b list \<Rightarrow> error + 'c list" where
  "np_broadcast f xs ys =
     (if length xs = length ys then Inr (map2 f xs ys)
      else if length xs = 1 then Inr (map (f (hd xs)) ys)
      else if length ys = 1 then Inr (map (\<lambda>x. f x (hd ys)) xs)
      else Inl ValueError)"

definition np_divide :: "real list \<Rightarrow> real list \<Rightarrow> error + real list" where
  "np_divide xs ys =
     bind_e (np_broadcast Pair xs ys) (\<lambda>ps.
       if 0 \<in> set (map snd ps) then Inl NonFinite
       else Inr (map (\<lambda>p. fst p / snd p) ps))"

text \<open>The slice \<^verbatim>\<open>xs[0:k]\<close>: a negative \<open>k\<close> counts from the end.\<close>

definition slice_to :: "int \<Rightarrow> 'a list \<Rightarrow> 'a list" where
  "slice_to k xs =
     (if 0 \<le> k then take (nat k) xs else take (length xs - nat (- k)) xs)"

text \<open>Indexing with an index that is never negative here.\<close>

definition nth_e :: "'a list \<Rightarrow> nat \<Rightarrow> error + 'a" where
  "nth_e xs i = (if i < length xs then Inr (xs ! i) else Inl IndexError)"

text \<open>\<^verbatim>\<open>np.array\<close> of a list of rows is a two-dimensional array when the rows agree in length.\<close>

definition np_array2 :: "real list list \<Rightarrow> error + real list list" where
  "np_array2 rows =
     (if list_all (\<lambda>r. length r = length (hd rows)) rows then Inr rows else Inl ValueError)"

text \<open>
  \<^verbatim>\<open>scipy.sparse.spdiags(data, diags, m, n)\<close>, as the dense list of its rows: the entry in
  row \<open>i\<close> and column \<open>j\<close> is \<^verbatim>\<open>data[k, j]\<close> for the \<open>k\<close> with \<^verbatim>\<open>diags[k] = j - i\<close>
  (SciPy indexes a diagonal's storage by column), and zero elsewhere.
\<close>

definition spdiags_entry :: "real list list \<Rightarrow> int list \<Rightarrow> nat \<Rightarrow> nat \<Rightarrow> real" where
  "spdiags_entry data dvals i j =
     sum_list (map (\<lambda>k. if dvals ! k = int j - int i \<and> j < length (data ! k)
                         then data ! k ! j else 0) [0..<length dvals])"

definition spdiags :: "real list list \<Rightarrow> int list \<Rightarrow> int \<Rightarrow> int \<Rightarrow> error + real list list" where
  "spdiags data dvals m n =
     (if m < 0 \<or> n < 0 then Inl ValueError
      else Inr (map (\<lambda>i. map (\<lambda>j. spdiags_entry data dvals i j) [0..<nat n]) [0..<nat m]))"

text \<open>
  \<^verbatim>\<open>scipy.sparse.linalg.spsolve\<close> is not code of the notebook: the model takes the solver
  as a parameter. \<open>mat_vec\<close> is the product it is measured against, and an
  \<open>exact_solver\<close> returns, whenever it returns, a vector of the right-hand side's length
  that solves the system.
\<close>

type_synonym solver = "real list list \<Rightarrow> real list \<Rightarrow> error + real list"

definition mat_vec :: "real list list \<Rightarrow> real list \<Rightarrow> real list" where
  "mat_vec A v = map (\<lambda>row. sum_list (map2 (*) row v)) A"

definition exact_solver :: "solver \<Rightarrow> bool" where
  "exact_solver solve =
     (\<forall>A r bs. solve A r = Inr bs \<longrightarrow> length bs = length r \<and> mat_vec A bs = r)"

text \<open>Cramer's rule, an exact solver for the two by two systems of the examples below.\<close>

fun cramer2 :: solver where
  "cramer2 [[a, b], [c, d]] [r1, r2] =
     (if a * d - b * c = 0 then Inl NonFinite
      else Inr [(d * r1 - b * r2) / (a * d - b * c), (a * r2 - c * r1) / (a * d - b * c)])"
| "cramer2 A r = Inl ValueError"

subsection \<open>The Lagrange cells\<close>

text \<open>
  \<^verbatim>\<open>
  def lfun(xvals,jj,x):
      lval = np.ones(x.size)
      # Insert code here
      return lval
  \<close>
\<close>

definition lfun :: "real list \<Rightarrow> nat \<Rightarrow> real list \<Rightarrow> real list" where
  "lfun xvals jj x = replicate (length x) 1"

text \<open>
  \<^verbatim>\<open>
  def lagran_interp(xvals,fvals,x):
      n = fvals.size
      # Insert code here
      return ipoly
  \<close>
  The function never assigns \<^verbatim>\<open>ipoly\<close>, so the name is looked up in the module
  namespace.
\<close>

definition lagran_interp :: "globals \<Rightarrow> real list \<Rightarrow> real list \<Rightarrow> real list \<Rightarrow> error + real list" where
  "lagran_interp g xvals fvals x =
     (let n = length fvals
      in case ipoly g of None \<Rightarrow> Inl NameError | Some v \<Rightarrow> Inr v)"

text \<open>
  The Lagrange basis polynomial in the words of the specification,
  \<open>L\<^sub>j(x) = \<Prod>\<^bsub>l \<noteq> j\<^esub> (x - x\<^sub>l) / (x\<^sub>j - x\<^sub>l)\<close>, to compare \<open>lfun\<close> with.
\<close>

definition lagrange_basis_spec :: "real list \<Rightarrow> nat \<Rightarrow> real \<Rightarrow> real" where
  "lagrange_basis_spec xvals j x =
     prod_list (map (\<lambda>l. (x - xvals ! l) / (xvals ! j - xvals ! l))
                    (filter (\<lambda>l. l \<noteq> j) [0..<length xvals]))"

subsection \<open>The spline cell\<close>

text \<open>
  Lines 385 to 388:
  \<^verbatim>\<open>
  n = fvals.size - 1
  df = fvals[1:]-fvals[0:n]
  dx = xvals[1:]-xvals[0:n]
  dfdx = df/dx
  \<close>
\<close>

definition divided_differences :: "real list \<Rightarrow> real list \<Rightarrow> error + (real list \<times> real list)" where
  "divided_differences xvals fvals =
     (let n = int (length fvals) - 1
      in bind_e (np_broadcast (-) (drop 1 fvals) (slice_to n fvals)) (\<lambda>df.
         bind_e (np_broadcast (-) (drop 1 xvals) (slice_to n xvals)) (\<lambda>dx.
         bind_e (np_divide df dx) (\<lambda>dfdx. Inr (dx, dfdx)))))"

text \<open>
  Line 389, \<^verbatim>\<open>svals = np.zeros(ivals.size)\<close>: \<^verbatim>\<open>ivals\<close> is not a parameter of
  \<^verbatim>\<open>spline_maker\<close> but a name of the notebook's namespace.
\<close>

definition zeros_ivals :: "globals \<Rightarrow> error + real list" where
  "zeros_ivals g =
     (case ivals g of None \<Rightarrow> Inl NameError | Some iv \<Rightarrow> Inr (replicate (length iv) 0))"

text \<open>
  Lines 391 to 395:
  \<^verbatim>\<open>
  rhs = dfdx[1:] - dfdx[0:n-1]
  diag = 2./3.*(dx[1:] + dx[0:n-1])
  data = np.array([diag,dx[1:]/3.,dx[0:n-1]/3.])
  dvals = np.array([0,-1,1])
  Bmat = spdiags(data, dvals, n-1, n-1)
  \<close>
\<close>

definition tridiag_system :: "int \<Rightarrow> real list \<Rightarrow> real list \<Rightarrow> error + (real list list \<times> real list)" where
  "tridiag_system n dx dfdx =
     bind_e (np_broadcast (-) (drop 1 dfdx) (slice_to (n - 1) dfdx)) (\<lambda>rhs.
     bind_e (np_broadcast (+) (drop 1 dx) (slice_to (n - 1) dx)) (\<lambda>s.
       let diag = map (\<lambda>v. 2 / 3 * v) s
       in bind_e (np_array2 [diag, map (\<lambda>v. v / 3) (drop 1 dx),
                             map (\<lambda>v. v / 3) (slice_to (n - 1) dx)]) (\<lambda>data.
          bind_e (spdiags data [0, - 1, 1] (n - 1) (n - 1)) (\<lambda>Bmat.
          Inr (Bmat, rhs)))))"

text \<open>
  Lines 385 to 400, everything before the evaluation loop; after the system is solved:
  \<^verbatim>\<open>
  bvec = spsolve(Bmat,rhs)
  bvec = np.append(0.,bvec)
  cvec = dfdx - 2./3.*dx*bvec - dx/3.*np.append(bvec[1:],0.)
  avec = (dfdx - dx*bvec - cvec)/(dx**2.)
  \<close>
  The result is the zero-initialised output with the coefficient vectors
  \<open>(svals, avec, bvec, cvec)\<close>.
\<close>

definition spline_setup ::
  "solver \<Rightarrow> globals \<Rightarrow> real list \<Rightarrow> real list
     \<Rightarrow> error + (real list \<times> real list \<times> real list \<times> real list)" where
  "spline_setup solve g xvals fvals =
     (let n = int (length fvals) - 1
      in bind_e (divided_differences xvals fvals) (\<lambda>(dx, dfdx).
         bind_e (zeros_ivals g) (\<lambda>svals.
         bind_e (tridiag_system n dx dfdx) (\<lambda>(Bmat, rhs).
         bind_e (solve Bmat rhs) (\<lambda>bs.
           let bvec = 0 # bs
           in bind_e (np_broadcast (*) (map (\<lambda>v. 2 / 3 * v) dx) bvec) (\<lambda>t1.
              bind_e (np_broadcast (-) dfdx t1) (\<lambda>t2.
              bind_e (np_broadcast (*) (map (\<lambda>v. v / 3) dx) (drop 1 bvec @ [0])) (\<lambda>t3.
              bind_e (np_broadcast (-) t2 t3) (\<lambda>cvec.
              bind_e (np_broadcast (*) dx bvec) (\<lambda>t4.
              bind_e (np_broadcast (-) dfdx t4) (\<lambda>t5.
              bind_e (np_broadcast (-) t5 cvec) (\<lambda>t6.
              bind_e (np_divide t6 (map (\<lambda>v. v ^ 2) dx)) (\<lambda>avec.
              Inr (svals, avec, bvec, cvec))))))))))))))"

text \<open>
  The cubic of one segment at the local offset \<open>t\<close>, line 409:
  \<^verbatim>\<open>avec[jj-1]*dxloc**3. + bvec[jj-1]*dxloc**2. + cvec[jj-1]*dxloc + fvals[jj-1]\<close>.
\<close>

definition cubic :: "real \<Rightarrow> real \<Rightarrow> real \<Rightarrow> real \<Rightarrow> real \<Rightarrow> real" where
  "cubic a b c d t = a * t ^ 3 + b * t ^ 2 + c * t + d"

text \<open>\<^verbatim>\<open>qvals[inds]\<close>: the entries at the positions where the mask holds.\<close>

definition masked :: "'a list \<Rightarrow> bool list \<Rightarrow> 'a list" where
  "masked xs inds = map fst (filter snd (zip xs inds))"

text \<open>\<^verbatim>\<open>svals[inds] = vs\<close>: the values go, in order, to the positions where the mask holds.\<close>

fun masked_assign :: "'a list \<Rightarrow> bool list \<Rightarrow> 'a list \<Rightarrow> 'a list" where
  "masked_assign (s # ss) (True # ms) (v # vs) = v # masked_assign ss ms vs"
| "masked_assign (s # ss) (False # ms) vs = s # masked_assign ss ms vs"
| "masked_assign ss ms vs = ss"

text \<open>
  The body of the loop, lines 404 to 409:
  \<^verbatim>\<open>
  indsr = qvals < xvals[jj]
  indsl = qvals >= xvals[jj-1]
  inds = indsl*indsr
  dxloc = qvals[inds] - xvals[jj-1]
  svals[inds] = avec[jj-1]*dxloc**3. + bvec[jj-1]*dxloc**2. + cvec[jj-1]*dxloc + fvals[jj-1]
  \<close>
  A boolean index whose length differs from the indexed array's is an IndexError, unless
  the index is empty: NumPy accepts a boolean index of size zero on an array of any size,
  and the assignment then changes nothing.
\<close>

definition spline_segment ::
  "real list \<Rightarrow> real list \<Rightarrow> real list \<Rightarrow> real list \<Rightarrow> real list \<Rightarrow> real list
     \<Rightarrow> nat \<Rightarrow> real list \<Rightarrow> error + real list" where
  "spline_segment xvals fvals avec bvec cvec qvals jj svals =
     bind_e (nth_e xvals jj) (\<lambda>xr.
     bind_e (nth_e xvals (jj - 1)) (\<lambda>xl.
       let indsr = map (\<lambda>q. q < xr) qvals;
           indsl = map (\<lambda>q. xl \<le> q) qvals;
           inds = map2 (\<and>) indsl indsr;
           dxloc = map (\<lambda>q. q - xl) (masked qvals inds)
       in bind_e (nth_e avec (jj - 1)) (\<lambda>a.
          bind_e (nth_e bvec (jj - 1)) (\<lambda>b.
          bind_e (nth_e cvec (jj - 1)) (\<lambda>c.
          bind_e (nth_e fvals (jj - 1)) (\<lambda>d.
            if length svals = length inds \<or> inds = []
            then Inr (masked_assign svals inds (map (cubic a b c d) dxloc))
            else Inl IndexError))))))"

text \<open>\<^verbatim>\<open>for jj in xrange(1,n+1)\<close>: the body runs for each index in turn, until one raises.\<close>

fun spline_loop :: "(nat \<Rightarrow> real list \<Rightarrow> error + real list) \<Rightarrow> nat list \<Rightarrow> real list \<Rightarrow> error + real list" where
  "spline_loop body [] svals = Inr svals"
| "spline_loop body (jj # jjs) svals = bind_e (body jj svals) (spline_loop body jjs)"

definition spline_maker ::
  "solver \<Rightarrow> globals \<Rightarrow> real list \<Rightarrow> real list \<Rightarrow> real list \<Rightarrow> error + real list" where
  "spline_maker solve g xvals fvals qvals =
     (let n = int (length fvals) - 1
      in bind_e (spline_setup solve g xvals fvals) (\<lambda>(svals, avec, bvec, cvec).
         spline_loop (spline_segment xvals fvals avec bvec cvec qvals)
                     [1..<nat (n + 1)] svals))"

subsection \<open>The notation of the specification\<close>

text \<open>
  The interval widths \<open>\<delta>x\<^sub>j = x\<^bsub>j+1\<^esub> - x\<^sub>j\<close> and the divided differences
  \<open>g\<^sub>j = (f\<^bsub>j+1\<^esub> - f\<^sub>j) / (x\<^bsub>j+1\<^esub> - x\<^sub>j)\<close> as the specification writes them; the
  arrays \<^verbatim>\<open>dx\<close> and \<^verbatim>\<open>dfdx\<close> of the code are compared with them below.
\<close>

definition dx_at :: "real list \<Rightarrow> nat \<Rightarrow> real" where
  "dx_at xvals j = xvals ! Suc j - xvals ! j"

definition g_at :: "real list \<Rightarrow> real list \<Rightarrow> nat \<Rightarrow> real" where
  "g_at xvals fvals j = (fvals ! Suc j - fvals ! j) / (xvals ! Suc j - xvals ! j)"

text \<open>
  The entry in row \<open>i\<close> and column \<open>j\<close> of the matrix that \<open>tridiag_system\<close> builds from the
  array \<^verbatim>\<open>dx\<close>, written out.
\<close>

definition tri_entry :: "real list \<Rightarrow> nat \<Rightarrow> nat \<Rightarrow> real" where
  "tri_entry dx i j =
     (if j = i then 2 / 3 * (dx ! Suc j + dx ! j) else 0)
     + (if Suc j = i then dx ! Suc j / 3 else 0)
     + (if j = Suc i then dx ! j / 3 else 0)"

text \<open>
  The mask of the loop's pass \<open>jj\<close> at one query, \<open>x\<^bsub>jj-1\<^esub> \<le> q < x\<^bsub>jj\<^esub>\<close>, and the cubic
  \<open>S\<^sub>j\<close> of segment \<open>j\<close> as a function of the abscissa.
\<close>

definition in_interval :: "real list \<Rightarrow> nat \<Rightarrow> real \<Rightarrow> bool" where
  "in_interval xvals jj q = (xvals ! (jj - 1) \<le> q \<and> q < xvals ! jj)"

definition segment_value ::
  "real list \<Rightarrow> real list \<Rightarrow> real list \<Rightarrow> real list \<Rightarrow> real list \<Rightarrow> nat \<Rightarrow> real \<Rightarrow> real" where
  "segment_value xvals fvals avec bvec cvec j q =
     cubic (avec ! j) (bvec ! j) (cvec ! j) (fvals ! j) (q - xvals ! j)"

section \<open>Auxiliary lemmas\<close>

subsection \<open>The arrays of differences\<close>

text \<open>
  On a Sample Set (as many nodes as values) no operation broadcasts: \<^verbatim>\<open>dx\<close> and
  \<^verbatim>\<open>dfdx\<close> are the widths and the divided differences of the specification, and the
  division is finite exactly when no two consecutive nodes coincide.
\<close>

lemma bind_e_simps [simp]:
  "bind_e (Inr x) f = f x" "bind_e (Inl e) f = Inl e"
  by (simp_all add: bind_e_def)

lemma bind_e_Inr_iff: "bind_e m f = Inr y \<longleftrightarrow> (\<exists>x. m = Inr x \<and> f x = Inr y)"
  by (cases m) simp_all

lemma np_broadcast_same:
  "length xs = length ys \<Longrightarrow> np_broadcast f xs ys = Inr (map2 f xs ys)"
  by (simp add: np_broadcast_def)

lemma slice_to_pred: "slice_to (int (length xs) - 1) xs = take (length xs - 1) xs"
  by (cases xs) (simp_all add: slice_to_def)

lemma successive_diffs:
  "map2 f (drop (Suc 0) xs) (take (length xs - Suc 0) xs) = map (\<lambda>j. f (xs ! Suc j) (xs ! j)) [0..<length xs - Suc 0]"
  by (rule nth_equalityI) simp_all

lemma zip_map_same: "zip (map f xs) (map g xs) = map (\<lambda>x. (f x, g x)) xs"
  by (induction xs) simp_all

lemma divided_differences_eq:
  assumes "length xvals = length fvals"
  shows "divided_differences xvals fvals =
     (if 0 \<in> dx_at xvals ` {0..<length fvals - 1} then Inl NonFinite
      else Inr (map (dx_at xvals) [0..<length fvals - 1],
                map (g_at xvals fvals) [0..<length fvals - 1]))"
proof -
  let ?n = "length fvals - 1"
  have df: "np_broadcast (-) (drop 1 fvals) (slice_to (int (length fvals) - 1) fvals)
      = Inr (map (\<lambda>j. fvals ! Suc j - fvals ! j) [0..<?n])"
    by (simp add: slice_to_pred np_broadcast_same successive_diffs)
  have dx: "np_broadcast (-) (drop 1 xvals) (slice_to (int (length fvals) - 1) xvals)
      = Inr (map (dx_at xvals) [0..<?n])"
    using assms(1) slice_to_pred [of xvals] successive_diffs [of "(-)" xvals]
    by (simp add: np_broadcast_same dx_at_def [abs_def])
  have dv: "np_divide (map (\<lambda>j. fvals ! Suc j - fvals ! j) [0..<?n]) (map (dx_at xvals) [0..<?n])
      = (if 0 \<in> dx_at xvals ` {0..<?n} then Inl NonFinite else Inr (map (g_at xvals fvals) [0..<?n]))"
    by (simp add: np_divide_def np_broadcast_same zip_map_same g_at_def dx_at_def image_image comp_def)
  show ?thesis
    unfolding divided_differences_def Let_def df dx dv bind_e_simps by simp
qed

lemma divided_differences_Inr:
  assumes "length xvals = length fvals"
    and "divided_differences xvals fvals = Inr (dx, dfdx)"
  shows "dx = map (dx_at xvals) [0..<length fvals - 1]"
    and "dfdx = map (g_at xvals fvals) [0..<length fvals - 1]"
    and "\<forall>j<length fvals - 1. dx_at xvals j \<noteq> 0"
  using assms(2) unfolding divided_differences_eq [OF assms(1)]
  by (auto split: if_splits)

subsection \<open>The tridiagonal system\<close>

text \<open>
  The matrix of \<open>tridiag_system\<close> has the entries \<open>tri_entry\<close>, and the product of one of
  its rows with a vector is the three-term sum of the spline equations, with \<open>0\<close> for the
  curvatures \<open>b\<^sub>0\<close> and \<open>b\<^sub>n\<close>.
\<close>

lemma spdiags_entry_tri:
  assumes "length dg = m" "length lo = m" "length up = m" "j < m"
  shows "spdiags_entry [dg, lo, up] [0, - 1, 1] i j =
     (if j = i then dg ! j else 0) + (if Suc j = i then lo ! j else 0)
     + (if j = Suc i then up ! j else 0)"
proof -
  have "[0..<length [0, - 1, 1 :: int]] = [0, Suc 0, Suc (Suc 0)]"
    by (simp add: upt_rec)
  then show ?thesis
    using assms by (auto simp add: spdiags_entry_def)
qed

lemma tridiag_system_Inr:
  assumes "length dx = n" "length dfdx = n"
  shows "tridiag_system (int n) dx dfdx =
     (if n = 0 then Inl ValueError
      else Inr (map (\<lambda>i. map (tri_entry dx i) [0..<n - 1]) [0..<n - 1],
                map (\<lambda>i. dfdx ! Suc i - dfdx ! i) [0..<n - 1]))"
proof (cases "n = 0")
  case True
  with assms show ?thesis
    by (simp add: tridiag_system_def np_broadcast_def np_array2_def spdiags_def slice_to_def)
next
  case False
  let ?m = "n - 1"
  have sl: "slice_to (int n - 1) dx = take ?m dx" "slice_to (int n - 1) dfdx = take ?m dfdx"
    using assms slice_to_pred [of dx] slice_to_pred [of dfdx] by simp_all
  have rhs: "np_broadcast (-) (drop 1 dfdx) (take ?m dfdx)
      = Inr (map (\<lambda>i. dfdx ! Suc i - dfdx ! i) [0..<?m])"
    using assms successive_diffs [of "(-)" dfdx] by (simp add: np_broadcast_same)
  have s: "np_broadcast (+) (drop 1 dx) (take ?m dx)
      = Inr (map (\<lambda>i. dx ! Suc i + dx ! i) [0..<?m])"
    using assms successive_diffs [of "(+)" dx] by (simp add: np_broadcast_same)
  let ?dg = "map (\<lambda>v. 2 / 3 * v) (map (\<lambda>i. dx ! Suc i + dx ! i) [0..<?m])"
  let ?lo = "map (\<lambda>v. v / 3) (drop 1 dx)"
  let ?up = "map (\<lambda>v. v / 3) (take ?m dx)"
  have arr: "np_array2 [?dg, ?lo, ?up] = Inr [?dg, ?lo, ?up]"
    using assms by (simp add: np_array2_def)
  have ent: "spdiags_entry [?dg, ?lo, ?up] [0, - 1, 1] i j = tri_entry dx i j" if "j < ?m" for i j
    using that assms by (subst spdiags_entry_tri [where m = ?m]) (auto simp add: tri_entry_def)
  have sp: "spdiags [?dg, ?lo, ?up] [0, - 1, 1] (int n - 1) (int n - 1)
      = Inr (map (\<lambda>i. map (tri_entry dx i) [0..<?m]) [0..<?m])"
  proof -
    have eq: "nat (int n - 1) = ?m" by simp
    have M: "map (\<lambda>i. map (\<lambda>j. spdiags_entry [?dg, ?lo, ?up] [0, - 1, 1] i j) [0..<?m]) [0..<?m]
        = map (\<lambda>i. map (tri_entry dx i) [0..<?m]) [0..<?m]"
      by (rule map_cong [OF refl], rule map_cong [OF refl]) (use ent in simp)
    show ?thesis
      unfolding spdiags_def eq M using False by simp
  qed
  show ?thesis
    unfolding tridiag_system_def sl rhs s bind_e_simps Let_def arr sp
    using False by simp
qed

lemma tri_row_sum:
  assumes "i < m" "length bs = m"
  shows "sum_list (map2 (*) (map (tri_entry dx i) [0..<m]) bs) =
     dx ! i / 3 * ((0 # bs @ [0]) ! i)
     + 2 / 3 * (dx ! Suc i + dx ! i) * ((0 # bs @ [0]) ! Suc i)
     + dx ! Suc i / 3 * ((0 # bs @ [0]) ! Suc (Suc i))"
proof -
  have "map2 (*) (map (tri_entry dx i) [0..<m]) bs = map (\<lambda>j. tri_entry dx i j * bs ! j) [0..<m]"
    using assms by (intro nth_equalityI) simp_all
  then have "sum_list (map2 (*) (map (tri_entry dx i) [0..<m]) bs)
      = (\<Sum>j = 0..<m. tri_entry dx i j * bs ! j)"
    by (simp add: interv_sum_list_conv_sum_set_nat)
  also have "\<dots> = (\<Sum>j = 0..<m. if j = i then 2 / 3 * (dx ! Suc j + dx ! j) * bs ! j else 0)
      + (\<Sum>j = 0..<m. if Suc j = i then dx ! Suc j / 3 * bs ! j else 0)
      + (\<Sum>j = 0..<m. if j = Suc i then dx ! j / 3 * bs ! j else 0)"
    unfolding sum.distrib [symmetric]
    by (intro sum.cong refl) (simp add: tri_entry_def algebra_simps)
  also have "(\<Sum>j = 0..<m. if j = i then 2 / 3 * (dx ! Suc j + dx ! j) * bs ! j else 0)
      = 2 / 3 * (dx ! Suc i + dx ! i) * ((0 # bs @ [0]) ! Suc i)"
    using assms by (simp add: nth_append)
  also have "(\<Sum>j = 0..<m. if Suc j = i then dx ! Suc j / 3 * bs ! j else 0)
      = dx ! i / 3 * ((0 # bs @ [0]) ! i)"
  proof (cases i)
    case 0
    then show ?thesis by simp
  next
    case (Suc k)
    then show ?thesis using assms by (simp add: nth_append)
  qed
  also have "(\<Sum>j = 0..<m. if j = Suc i then dx ! j / 3 * bs ! j else 0)
      = dx ! Suc i / 3 * ((0 # bs @ [0]) ! Suc (Suc i))"
    using assms by (auto simp add: nth_append less_Suc_eq_le)
  finally show ?thesis by (simp add: algebra_simps)
qed

subsection \<open>The coefficients after a successful set-up\<close>

lemma np_broadcast_upt:
  assumes "length xs = n" "length ys = n" "\<And>j. j < n \<Longrightarrow> f (xs ! j) (ys ! j) = h j"
  shows "np_broadcast f xs ys = Inr (map h [0..<n])"
proof -
  have "map2 f xs ys = map h [0..<n]"
    using assms by (intro nth_equalityI) simp_all
  then show ?thesis using assms by (simp add: np_broadcast_same)
qed

lemma np_divide_upt:
  assumes "length xs = n" "length ys = n" "\<And>j. j < n \<Longrightarrow> ys ! j \<noteq> 0"
    "\<And>j. j < n \<Longrightarrow> xs ! j / ys ! j = h j"
  shows "np_divide xs ys = Inr (map h [0..<n])"
proof -
  have "0 \<notin> snd ` set (zip xs ys)"
    using assms(1,2,3) by (auto simp add: in_set_zip)
  moreover have "map (\<lambda>p. fst p / snd p) (zip xs ys) = map h [0..<n]"
    using assms by (intro nth_equalityI) simp_all
  ultimately show ?thesis
    using assms(1,2) by (simp add: np_divide_def np_broadcast_same)
qed

lemma spline_setup_forward:
  assumes len: "length xvals = length fvals"
    and dd: "divided_differences xvals fvals = Inr (dx, dfdx)"
    and ts: "tridiag_system (int (length fvals) - 1) dx dfdx = Inr (Bmat, rhs)"
    and sol: "solve Bmat rhs = Inr bs"
    and lbs: "length bs = length rhs"
    and iv: "ivals g = Some iv"
  shows "spline_setup solve g xvals fvals =
     Inr (replicate (length iv) 0,
          map (\<lambda>j. (g_at xvals fvals j - dx_at xvals j * (0 # bs) ! j
                           - (g_at xvals fvals j - 2 / 3 * dx_at xvals j * (0 # bs) ! j
                              - dx_at xvals j / 3 * (bs @ [0]) ! j)) / (dx_at xvals j) ^ 2)
              [0..<length fvals - 1],
          0 # bs,
          map (\<lambda>j. g_at xvals fvals j - 2 / 3 * dx_at xvals j * (0 # bs) ! j
                          - dx_at xvals j / 3 * (bs @ [0]) ! j) [0..<length fvals - 1])"
proof -
  let ?n = "length fvals - 1"
  let ?m = "length fvals - 2"
  let ?d = "dx_at xvals"
  let ?g = "g_at xvals fvals"
  note ddf = divided_differences_Inr [OF len dd]
  have dx: "dx = map ?d [0..<?n]" and dfdx: "dfdx = map ?g [0..<?n]"
    and nz: "\<forall>j<?n. ?d j \<noteq> 0"
    using ddf by simp_all
  have ldx: "length dx = ?n" "length dfdx = ?n"
    using dx dfdx by simp_all
  have z: "zeros_ivals g = Inr (replicate (length iv) 0)"
    using iv by (simp add: zeros_ivals_def)
  have two: "2 \<le> length fvals"
  proof (rule ccontr)
    assume "\<not> 2 \<le> length fvals"
    then consider "length fvals = 0" | "length fvals = 1" by linarith
    then have "tridiag_system (int (length fvals) - 1) dx dfdx = Inl ValueError"
    proof cases
      case 1
      with ldx show ?thesis
        by (simp add: tridiag_system_def np_broadcast_def np_array2_def spdiags_def slice_to_def)
    next
      case 2
      with ldx tridiag_system_Inr [of dx 0 dfdx] show ?thesis by simp
    qed
    with ts show False by simp
  qed
  then have nint: "int (length fvals) - 1 = int ?n" and n0: "?n \<noteq> 0"
    and nm: "?n - 1 = ?m" "Suc ?m = ?n"
    by simp_all
  have "tridiag_system (int (length fvals) - 1) dx dfdx
      = Inr (map (\<lambda>i. map (tri_entry dx i) [0..<?m]) [0..<?m],
             map (\<lambda>i. dfdx ! Suc i - dfdx ! i) [0..<?m])"
    unfolding nint using tridiag_system_Inr [OF ldx] n0 nm by simp
  with ts have "length rhs = ?m" by auto
  with lbs have lbs': "length bs = ?m" by simp
  let ?B = "0 # bs"
  let ?E = "bs @ [0]"
  have lB: "length ?B = ?n" "length ?E = ?n"
    using lbs' nm by simp_all
  let ?c = "\<lambda>j. ?g j - 2 / 3 * ?d j * ?B ! j - ?d j / 3 * ?E ! j"
  let ?a = "\<lambda>j. (?g j - ?d j * ?B ! j - ?c j) / (?d j) ^ 2"
  have t1: "np_broadcast (*) (map (\<lambda>v. 2 / 3 * v) dx) ?B = Inr (map (\<lambda>j. 2 / 3 * ?d j * ?B ! j) [0..<?n])"
    using ldx lB by (intro np_broadcast_upt) (simp_all add: dx)
  have t2: "np_broadcast (-) dfdx (map (\<lambda>j. 2 / 3 * ?d j * ?B ! j) [0..<?n])
      = Inr (map (\<lambda>j. ?g j - 2 / 3 * ?d j * ?B ! j) [0..<?n])"
    using ldx by (intro np_broadcast_upt) (simp_all add: dfdx)
  have t3: "np_broadcast (*) (map (\<lambda>v. v / 3) dx) (drop 1 ?B @ [0]) = Inr (map (\<lambda>j. ?d j / 3 * ?E ! j) [0..<?n])"
    using ldx lB by (intro np_broadcast_upt) (simp_all add: dx)
  have cv: "np_broadcast (-) (map (\<lambda>j. ?g j - 2 / 3 * ?d j * ?B ! j) [0..<?n])
      (map (\<lambda>j. ?d j / 3 * ?E ! j) [0..<?n]) = Inr (map ?c [0..<?n])"
    by (intro np_broadcast_upt) simp_all
  have t4: "np_broadcast (*) dx ?B = Inr (map (\<lambda>j. ?d j * ?B ! j) [0..<?n])"
    using ldx lB by (intro np_broadcast_upt) (simp_all add: dx)
  have t5: "np_broadcast (-) dfdx (map (\<lambda>j. ?d j * ?B ! j) [0..<?n])
      = Inr (map (\<lambda>j. ?g j - ?d j * ?B ! j) [0..<?n])"
    using ldx by (intro np_broadcast_upt) (simp_all add: dfdx)
  have t6: "np_broadcast (-) (map (\<lambda>j. ?g j - ?d j * ?B ! j) [0..<?n]) (map ?c [0..<?n])
      = Inr (map (\<lambda>j. ?g j - ?d j * ?B ! j - ?c j) [0..<?n])"
    by (intro np_broadcast_upt) simp_all
  have av: "np_divide (map (\<lambda>j. ?g j - ?d j * ?B ! j - ?c j) [0..<?n]) (map (\<lambda>v. v ^ 2) dx)
      = Inr (map ?a [0..<?n])"
    using ldx nz by (intro np_divide_upt) (simp_all add: dx)
  show ?thesis
    unfolding spline_setup_def Let_def dd bind_e_simps prod.case z ts sol t1 t2 t3 cv t4 t5 t6 av ..
qed

lemma spline_setup_Inr:
  assumes len: "length xvals = length fvals"
    and ex: "exact_solver solve"
    and acc: "spline_setup solve g xvals fvals = Inr (svals, avec, bvec, cvec)"
  shows "\<exists>bs iv. 2 \<le> length fvals \<and> length bs = length fvals - 2 \<and> bvec = 0 # bs
      \<and> ivals g = Some iv \<and> svals = replicate (length iv) 0
      \<and> (\<forall>j<length fvals - 1. dx_at xvals j \<noteq> 0)
      \<and> solve (map (\<lambda>i. map (tri_entry (map (dx_at xvals) [0..<length fvals - 1]) i)
                              [0..<length fvals - 2]) [0..<length fvals - 2])
               (map (\<lambda>i. g_at xvals fvals (Suc i) - g_at xvals fvals i) [0..<length fvals - 2])
          = Inr bs
      \<and> cvec = map (\<lambda>j. g_at xvals fvals j - 2 / 3 * dx_at xvals j * (0 # bs) ! j
                          - dx_at xvals j / 3 * (bs @ [0]) ! j) [0..<length fvals - 1]
      \<and> avec = map (\<lambda>j. (g_at xvals fvals j - dx_at xvals j * (0 # bs) ! j
                           - (g_at xvals fvals j - 2 / 3 * dx_at xvals j * (0 # bs) ! j
                              - dx_at xvals j / 3 * (bs @ [0]) ! j)) / (dx_at xvals j) ^ 2)
                    [0..<length fvals - 1]
      \<and> (\<forall>i<length fvals - 2.
            dx_at xvals i / 3 * (0 # bs @ [0]) ! i
            + 2 / 3 * (dx_at xvals (Suc i) + dx_at xvals i) * (0 # bs @ [0]) ! Suc i
            + dx_at xvals (Suc i) / 3 * (0 # bs @ [0]) ! Suc (Suc i)
            = g_at xvals fvals (Suc i) - g_at xvals fvals i)"
proof -
  let ?n = "length fvals - 1"
  let ?m = "length fvals - 2"
  let ?d = "dx_at xvals"
  let ?g = "g_at xvals fvals"
  obtain dx dfdx where dd: "divided_differences xvals fvals = Inr (dx, dfdx)"
    using acc by (cases "divided_differences xvals fvals") (auto simp add: spline_setup_def)
  note ddf = divided_differences_Inr [OF len dd]
  have dx: "dx = map ?d [0..<?n]" and dfdx: "dfdx = map ?g [0..<?n]"
    and nz: "\<forall>j<?n. ?d j \<noteq> 0"
    using ddf by simp_all
  have ldx: "length dx = ?n" "length dfdx = ?n"
    using dx dfdx by simp_all
  obtain iv where iv: "ivals g = Some iv"
    using acc dd by (cases "ivals g") (auto simp add: spline_setup_def zeros_ivals_def)
  then have z: "zeros_ivals g = Inr (replicate (length iv) 0)"
    by (simp add: zeros_ivals_def)
  have two: "2 \<le> length fvals"
  proof (rule ccontr)
    assume "\<not> 2 \<le> length fvals"
    then consider "length fvals = 0" | "length fvals = 1" by linarith
    then have "tridiag_system (int (length fvals) - 1) dx dfdx = Inl ValueError"
    proof cases
      case 1
      with ldx show ?thesis
        by (simp add: tridiag_system_def np_broadcast_def np_array2_def spdiags_def slice_to_def)
    next
      case 2
      with ldx tridiag_system_Inr [of dx 0 dfdx] show ?thesis by simp
    qed
    with acc dd z show False
      by (simp add: spline_setup_def)
  qed
  then have nint: "int (length fvals) - 1 = int ?n" and n0: "?n \<noteq> 0"
    and nm: "?n - 1 = ?m" "Suc ?m = ?n"
    by simp_all
  let ?M = "map (\<lambda>i. map (tri_entry dx i) [0..<?m]) [0..<?m]"
  let ?rhs = "map (\<lambda>i. dfdx ! Suc i - dfdx ! i) [0..<?m]"
  have ts: "tridiag_system (int (length fvals) - 1) dx dfdx = Inr (?M, ?rhs)"
    unfolding nint using tridiag_system_Inr [OF ldx] n0 nm by simp
  have rhs: "?rhs = map (\<lambda>i. ?g (Suc i) - ?g i) [0..<?m]"
    using nm by (intro map_cong refl) (simp add: dfdx)
  obtain bs where sol: "solve ?M ?rhs = Inr bs"
    using acc by (cases "solve ?M ?rhs") (simp_all add: spline_setup_def dd z ts)
  from ex sol have "length bs = length ?rhs \<and> mat_vec ?M bs = ?rhs"
    unfolding exact_solver_def by blast
  then have lbs: "length bs = ?m" and exact: "mat_vec ?M bs = ?rhs"
    by simp_all
  let ?B = "0 # bs"
  let ?E = "bs @ [0]"
  have lB: "length ?B = ?n" "length ?E = ?n"
    using lbs nm by simp_all
  let ?c = "\<lambda>j. ?g j - 2 / 3 * ?d j * ?B ! j - ?d j / 3 * ?E ! j"
  let ?a = "\<lambda>j. (?g j - ?d j * ?B ! j - ?c j) / (?d j) ^ 2"
  have "length bs = length ?rhs"
    using lbs by simp
  from spline_setup_forward [where solve = solve, OF len dd ts sol this iv]
  have "spline_setup solve g xvals fvals
      = Inr (replicate (length iv) 0, map ?a [0..<?n], ?B, map ?c [0..<?n])" .
  with acc have "Inr (svals, avec, bvec, cvec)
      = (Inr (replicate (length iv) 0, map ?a [0..<?n], ?B, map ?c [0..<?n]) :: error + _)"
    by (rule trans [OF sym])
  then have res: "svals = replicate (length iv) 0" "avec = map ?a [0..<?n]" "bvec = ?B"
    "cvec = map ?c [0..<?n]"
    by blast+
  have rows: "\<forall>i<?m. dx_at xvals i / 3 * (0 # bs @ [0]) ! i
            + 2 / 3 * (dx_at xvals (Suc i) + dx_at xvals i) * (0 # bs @ [0]) ! Suc i
            + dx_at xvals (Suc i) / 3 * (0 # bs @ [0]) ! Suc (Suc i)
            = g_at xvals fvals (Suc i) - g_at xvals fvals i"
  proof (intro allI impI)
    fix i assume that: "i < ?m"
    have "mat_vec ?M bs ! i = ?rhs ! i"
      using exact by simp
    then have "sum_list (map2 (*) (map (tri_entry dx i) [0..<?m]) bs) = ?g (Suc i) - ?g i"
      using that nm by (simp add: mat_vec_def dfdx)
    then show "dx_at xvals i / 3 * (0 # bs @ [0]) ! i
            + 2 / 3 * (dx_at xvals (Suc i) + dx_at xvals i) * (0 # bs @ [0]) ! Suc i
            + dx_at xvals (Suc i) / 3 * (0 # bs @ [0]) ! Suc (Suc i)
            = g_at xvals fvals (Suc i) - g_at xvals fvals i"
      using that nm by (simp add: tri_row_sum [OF that lbs] dx)
  qed
  have sol': "solve (map (\<lambda>i. map (tri_entry (map ?d [0..<?n]) i) [0..<?m]) [0..<?m])
      (map (\<lambda>i. ?g (Suc i) - ?g i) [0..<?m]) = Inr bs"
    using sol unfolding rhs unfolding dx .
  show ?thesis
    by (intro exI [of _ bs] exI [of _ iv] conjI) (fact two lbs res iv nz sol' rows)+
qed

subsection \<open>The evaluation loop\<close>

text \<open>
  One pass of the loop overwrites the entries whose query lies in the pass's interval; after
  all passes an entry holds the cubic of the last pass whose interval contains its query,
  or its initial value when there is none.
\<close>

lemma masked_assign_map:
  "length svals = length qvals \<Longrightarrow>
   masked_assign svals (map P qvals) (map f (masked qvals (map P qvals)))
     = map2 (\<lambda>s q. if P q then f q else s) svals qvals"
  by (induction svals qvals rule: list_induct2) (simp_all add: masked_def)

lemma spline_segment_Inr:
  assumes "jj < length xvals" "jj - 1 < length avec" "jj - 1 < length bvec"
    "jj - 1 < length cvec" "jj - 1 < length fvals" "length svals = length qvals"
  shows "spline_segment xvals fvals avec bvec cvec qvals jj svals =
     Inr (map2 (\<lambda>s q. if in_interval xvals jj q
                        then segment_value xvals fvals avec bvec cvec (jj - 1) q else s)
               svals qvals)"
proof -
  let ?xl = "xvals ! (jj - 1)" and ?xr = "xvals ! jj"
  have inds: "map2 (\<and>) (map (\<lambda>q. ?xl \<le> q) qvals) (map (\<lambda>q. q < ?xr) qvals)
      = map (in_interval xvals jj) qvals"
    by (simp add: zip_map_same in_interval_def [abs_def])
  have vals: "map (cubic (avec ! (jj - 1)) (bvec ! (jj - 1)) (cvec ! (jj - 1)) (fvals ! (jj - 1)))
        (map (\<lambda>q. q - ?xl) (masked qvals (map (in_interval xvals jj) qvals)))
      = map (segment_value xvals fvals avec bvec cvec (jj - 1))
        (masked qvals (map (in_interval xvals jj) qvals))"
    by (simp add: segment_value_def [abs_def] comp_def)
  have nth: "nth_e xvals jj = Inr ?xr" "nth_e xvals (jj - 1) = Inr ?xl"
    "nth_e avec (jj - 1) = Inr (avec ! (jj - 1))" "nth_e bvec (jj - 1) = Inr (bvec ! (jj - 1))"
    "nth_e cvec (jj - 1) = Inr (cvec ! (jj - 1))" "nth_e fvals (jj - 1) = Inr (fvals ! (jj - 1))"
    using assms by (simp_all add: nth_e_def)
  show ?thesis
    unfolding spline_segment_def nth bind_e_simps Let_def inds vals
    by (simp only: length_map assms(6) refl simp_thms if_True masked_assign_map [OF assms(6)])
qed

lemma find_snoc:
  "find P (xs @ [x]) = (case find P xs of None \<Rightarrow> (if P x then Some x else None) | Some y \<Rightarrow> Some y)"
  by (induction xs) simp_all

lemma spline_loop_Inr:
  assumes "\<forall>jj\<in>set jjs. jj < length xvals \<and> jj - 1 < length avec \<and> jj - 1 < length bvec
      \<and> jj - 1 < length cvec \<and> jj - 1 < length fvals"
    and "length svals = length qvals"
  shows "spline_loop (spline_segment xvals fvals avec bvec cvec qvals) jjs svals =
     Inr (map2 (\<lambda>s q. case find (\<lambda>jj. in_interval xvals jj q) (rev jjs) of
                         None \<Rightarrow> s
                       | Some jj \<Rightarrow> segment_value xvals fvals avec bvec cvec (jj - 1) q)
               svals qvals)"
  using assms
proof (induction jjs arbitrary: svals)
  case Nil
  then have "map2 (\<lambda>s q. s) svals qvals = svals"
    by (intro nth_equalityI) simp_all
  then show ?case by simp
next
  case (Cons jj jjs)
  let ?s1 = "map2 (\<lambda>s q. if in_interval xvals jj q
                        then segment_value xvals fvals avec bvec cvec (jj - 1) q else s)
               svals qvals"
  have step: "spline_segment xvals fvals avec bvec cvec qvals jj svals = Inr ?s1"
    using Cons.prems by (intro spline_segment_Inr) simp_all
  have len: "length ?s1 = length qvals"
    using Cons.prems by simp
  have "spline_loop (spline_segment xvals fvals avec bvec cvec qvals) (jj # jjs) svals
      = spline_loop (spline_segment xvals fvals avec bvec cvec qvals) jjs ?s1"
    by (simp add: step)
  also have "\<dots> = Inr (map2 (\<lambda>s q. case find (\<lambda>jj. in_interval xvals jj q) (rev jjs) of
                         None \<Rightarrow> s
                       | Some jj \<Rightarrow> segment_value xvals fvals avec bvec cvec (jj - 1) q)
               ?s1 qvals)"
    using Cons.prems len by (intro Cons.IH) simp_all
  also have "map2 (\<lambda>s q. case find (\<lambda>jj. in_interval xvals jj q) (rev jjs) of
                         None \<Rightarrow> s
                       | Some jj \<Rightarrow> segment_value xvals fvals avec bvec cvec (jj - 1) q)
               ?s1 qvals
      = map2 (\<lambda>s q. case find (\<lambda>jj. in_interval xvals jj q) (rev (jj # jjs)) of
                         None \<Rightarrow> s
                       | Some jj \<Rightarrow> segment_value xvals fvals avec bvec cvec (jj - 1) q)
               svals qvals"
    using Cons.prems(2)
    by (intro nth_equalityI) (simp_all add: find_snoc split: option.splits)
  finally show ?case .
qed

subsection \<open>Coefficient identities and derivatives\<close>

lemma spline_setup_coeffs:
  assumes len: "length xvals = length fvals"
    and ex: "exact_solver solve"
    and acc: "spline_setup solve g xvals fvals = Inr (svals, avec, bvec, cvec)"
  shows "2 \<le> length fvals"
    and "length avec = length fvals - 1" and "length bvec = length fvals - 1"
    and "length cvec = length fvals - 1"
    and "bvec ! 0 = 0"
    and "\<And>j. j < length fvals - 1 \<Longrightarrow> dx_at xvals j \<noteq> 0"
    and "\<And>j. j < length fvals - 1 \<Longrightarrow>
          cvec ! j = g_at xvals fvals j - 2 / 3 * dx_at xvals j * bvec ! j
            - dx_at xvals j / 3 * (if Suc j < length fvals - 1 then bvec ! Suc j else 0)"
    and "\<And>j. j < length fvals - 1 \<Longrightarrow>
          avec ! j = (g_at xvals fvals j - dx_at xvals j * bvec ! j - cvec ! j) / (dx_at xvals j) ^ 2"
    and "\<And>i. i < length fvals - 2 \<Longrightarrow>
          dx_at xvals i / 3 * bvec ! i
          + 2 / 3 * (dx_at xvals (Suc i) + dx_at xvals i) * bvec ! Suc i
          + dx_at xvals (Suc i) / 3 * (if Suc (Suc i) < length fvals - 1 then bvec ! Suc (Suc i) else 0)
          = g_at xvals fvals (Suc i) - g_at xvals fvals i"
    and "\<exists>iv. ivals g = Some iv \<and> svals = replicate (length iv) 0"
proof -
  let ?n = "length fvals - 1"
  from spline_setup_Inr [OF len ex acc] obtain bs iv where
    two: "2 \<le> length fvals" and lbs: "length bs = length fvals - 2" and b: "bvec = 0 # bs"
    and iv: "ivals g = Some iv" "svals = replicate (length iv) 0"
    and nz: "\<forall>j<?n. dx_at xvals j \<noteq> 0"
    and c: "cvec = map (\<lambda>j. g_at xvals fvals j - 2 / 3 * dx_at xvals j * (0 # bs) ! j
                          - dx_at xvals j / 3 * (bs @ [0]) ! j) [0..<?n]"
    and a: "avec = map (\<lambda>j. (g_at xvals fvals j - dx_at xvals j * (0 # bs) ! j
                           - (g_at xvals fvals j - 2 / 3 * dx_at xvals j * (0 # bs) ! j
                              - dx_at xvals j / 3 * (bs @ [0]) ! j)) / (dx_at xvals j) ^ 2)
                    [0..<?n]"
    and rows: "\<forall>i<length fvals - 2.
            dx_at xvals i / 3 * (0 # bs @ [0]) ! i
            + 2 / 3 * (dx_at xvals (Suc i) + dx_at xvals i) * (0 # bs @ [0]) ! Suc i
            + dx_at xvals (Suc i) / 3 * (0 # bs @ [0]) ! Suc (Suc i)
            = g_at xvals fvals (Suc i) - g_at xvals fvals i"
    by blast
  have ext: "(bs @ [0]) ! j = (if Suc j < ?n then bvec ! Suc j else 0)" if "j < ?n" for j
    using that lbs two by (auto simp add: b nth_append)
  show "2 \<le> length fvals" by (fact two)
  show "length avec = ?n" "length cvec = ?n" by (simp_all add: a c)
  show "length bvec = ?n" using lbs two by (simp add: b)
  show "bvec ! 0 = 0" by (simp add: b)
  show "dx_at xvals j \<noteq> 0" if "j < ?n" for j using nz that by blast
  show cj: "cvec ! j = g_at xvals fvals j - 2 / 3 * dx_at xvals j * bvec ! j
            - dx_at xvals j / 3 * (if Suc j < ?n then bvec ! Suc j else 0)" if "j < ?n" for j
    using that ext [OF that] by (simp add: c b)
  show "avec ! j = (g_at xvals fvals j - dx_at xvals j * bvec ! j - cvec ! j) / (dx_at xvals j) ^ 2"
    if "j < ?n" for j
    using that by (simp add: a c b)
  show "dx_at xvals i / 3 * bvec ! i
          + 2 / 3 * (dx_at xvals (Suc i) + dx_at xvals i) * bvec ! Suc i
          + dx_at xvals (Suc i) / 3 * (if Suc (Suc i) < ?n then bvec ! Suc (Suc i) else 0)
          = g_at xvals fvals (Suc i) - g_at xvals fvals i" if "i < length fvals - 2" for i
  proof -
    have i: "Suc i < ?n" using that by linarith
    have e1: "(0 # bs @ [0]) ! i = bvec ! i"
      using that lbs by (cases i) (simp_all add: b nth_append)
    have e2: "(0 # bs @ [0]) ! Suc i = bvec ! Suc i"
      using that lbs by (simp add: b nth_append)
    have e3: "(0 # bs @ [0]) ! Suc (Suc i) = (if Suc (Suc i) < ?n then bvec ! Suc (Suc i) else 0)"
      using ext [OF i] by simp
    from rows that have "dx_at xvals i / 3 * (0 # bs @ [0]) ! i
            + 2 / 3 * (dx_at xvals (Suc i) + dx_at xvals i) * (0 # bs @ [0]) ! Suc i
            + dx_at xvals (Suc i) / 3 * (0 # bs @ [0]) ! Suc (Suc i)
            = g_at xvals fvals (Suc i) - g_at xvals fvals i"
      by blast
    then show ?thesis
      unfolding e1 e2 e3 .
  qed
  show "\<exists>iv. ivals g = Some iv \<and> svals = replicate (length iv) 0"
    using iv by blast
qed

lemma cubic_join:
  fixes a b b' c g h :: real
  assumes h: "h \<noteq> 0"
    and c: "c = g - 2 / 3 * h * b - h / 3 * b'"
    and a: "a = (g - h * b - c) / h ^ 2"
  shows "a * h ^ 3 + b * h ^ 2 + c * h = g * h"
    and "3 * a * h ^ 2 + 2 * b * h + c = g + h * b / 3 + 2 / 3 * h * b'"
    and "6 * a * h + 2 * b = 2 * b'"
proof -
  have a': "a = (b' - b) / (3 * h)"
    using h unfolding a c by (simp add: field_simps power2_eq_square)
  show "a * h ^ 3 + b * h ^ 2 + c * h = g * h"
    using h unfolding a' c by (simp add: field_simps power2_eq_square power3_eq_cube)
  show "3 * a * h ^ 2 + 2 * b * h + c = g + h * b / 3 + 2 / 3 * h * b'"
    using h unfolding a' c by (simp add: field_simps power2_eq_square)
  show "6 * a * h + 2 * b = 2 * b'"
    using h unfolding a' by (simp add: field_simps)
qed

lemma segment_value_DERIV:
  "DERIV (segment_value xvals fvals avec bvec cvec j) x
     :> 3 * avec ! j * (x - xvals ! j) ^ 2 + 2 * bvec ! j * (x - xvals ! j) + cvec ! j"
  unfolding segment_value_def [abs_def] cubic_def
  by (auto intro!: derivative_eq_intros)

lemma segment_slope_DERIV:
  "DERIV (\<lambda>x. 3 * a * (x - x0) ^ 2 + 2 * b * (x - x0) + c) x :> 6 * a * (x - x0) + 2 * (b :: real)"
  by (auto intro!: derivative_eq_intros)

subsection \<open>The whole function\<close>

lemma sorted_wrt_dx_at:
  assumes "sorted_wrt (<) xvals" "Suc j < length xvals"
  shows "0 < dx_at xvals j"
  using assms sorted_wrt_nth_less [of "(<)" xvals j "Suc j"] by (simp add: dx_at_def)

lemma spline_setup_solved:
  assumes "spline_setup solve g xvals fvals = Inr (svals, avec, bvec, cvec)"
    and "divided_differences xvals fvals = Inr (dx, dfdx)"
    and "tridiag_system (int (length fvals) - 1) dx dfdx = Inr (Bmat, rhs)"
  shows "\<exists>bs. solve Bmat rhs = Inr bs \<and> bvec = 0 # bs"
  using assms(1) unfolding spline_setup_def Let_def assms(2,3) bind_e_simps prod.case
  by (auto simp add: bind_e_Inr_iff)

lemma spline_maker_Inr:
  assumes len: "length xvals = length fvals" and ex: "exact_solver solve"
    and acc: "spline_setup solve g xvals fvals = Inr (svals, avec, bvec, cvec)"
    and iv: "ivals g = Some iv" "length iv = length qvals"
  shows "spline_maker solve g xvals fvals qvals =
     Inr (map (\<lambda>q. case find (\<lambda>jj. in_interval xvals jj q) (rev [1..<length fvals]) of
                       None \<Rightarrow> 0
                     | Some jj \<Rightarrow> segment_value xvals fvals avec bvec cvec (jj - 1) q) qvals)"
proof -
  note co = spline_setup_coeffs [OF len ex acc]
  have sv: "svals = replicate (length qvals) 0"
    using co(10) iv by simp
  have n: "nat (int (length fvals) - 1 + 1) = length fvals"
    by simp
  have good: "\<forall>jj\<in>set [1..<length fvals]. jj < length xvals \<and> jj - 1 < length avec
      \<and> jj - 1 < length bvec \<and> jj - 1 < length cvec \<and> jj - 1 < length fvals"
    using len co(2,3,4) by auto
  have "spline_maker solve g xvals fvals qvals
      = spline_loop (spline_segment xvals fvals avec bvec cvec qvals) [1..<length fvals] svals"
    unfolding spline_maker_def Let_def acc bind_e_simps prod.case n ..
  also have "\<dots> = Inr (map2 (\<lambda>s q. case find (\<lambda>jj. in_interval xvals jj q) (rev [1..<length fvals]) of
                         None \<Rightarrow> s
                       | Some jj \<Rightarrow> segment_value xvals fvals avec bvec cvec (jj - 1) q)
               svals qvals)"
    using good sv by (intro spline_loop_Inr) simp_all
  also have "map2 (\<lambda>s q. case find (\<lambda>jj. in_interval xvals jj q) (rev [1..<length fvals]) of
                         None \<Rightarrow> s
                       | Some jj \<Rightarrow> segment_value xvals fvals avec bvec cvec (jj - 1) q)
               svals qvals
      = map (\<lambda>q. case find (\<lambda>jj. in_interval xvals jj q) (rev [1..<length fvals]) of
                       None \<Rightarrow> 0
                     | Some jj \<Rightarrow> segment_value xvals fvals avec bvec cvec (jj - 1) q) qvals"
    unfolding sv by (intro nth_equalityI) simp_all
  finally show ?thesis .
qed

lemma find_unique:
  assumes "x \<in> set xs" "P x" "\<And>y. y \<in> set xs \<Longrightarrow> P y \<Longrightarrow> y = x"
  shows "find P xs = Some x"
  using assms
proof (induction xs)
  case Nil
  then show ?case by simp
next
  case (Cons a xs)
  show ?case
  proof (cases "P a")
    case True
    then have "a = x" using Cons.prems(3) by simp
    with True show ?thesis by simp
  next
    case False
    with Cons.prems(1,2) have "x \<in> set xs" by auto
    then have "find P xs = Some x"
      using Cons.prems(2,3) by (intro Cons.IH) simp_all
    with False show ?thesis by simp
  qed
qed

lemma in_interval_unique:
  assumes "sorted_wrt (<) xvals" "jj < length xvals" "k < length xvals" "1 \<le> jj" "1 \<le> k"
    and "in_interval xvals jj q" "in_interval xvals k q"
  shows "k = jj"
proof (rule ccontr)
  assume "k \<noteq> jj"
  then consider "k \<le> jj - 1" | "jj \<le> k - 1" using assms(4,5) by linarith
  moreover have srt: "sorted xvals"
    using assms(1) by (rule strict_sorted_imp_sorted)
  ultimately show False
  proof cases
    case 1
    then have "xvals ! k \<le> xvals ! (jj - 1)"
      using assms(2) by (intro sorted_nth_mono [OF srt]) simp_all
    with assms(6,7) show False by (simp add: in_interval_def)
  next
    case 2
    then have "xvals ! jj \<le> xvals ! (k - 1)"
      using assms(3) by (intro sorted_nth_mono [OF srt]) simp_all
    with assms(6,7) show False by (simp add: in_interval_def)
  qed
qed

lemma spline_maker_interior:
  assumes len: "length xvals = length fvals" and ex: "exact_solver solve"
    and acc: "spline_setup solve g xvals fvals = Inr (svals, avec, bvec, cvec)"
    and iv: "ivals g = Some iv" "length iv = length qvals"
    and inc: "sorted_wrt (<) xvals"
    and i: "i < length qvals" and jj: "1 \<le> jj" "jj < length fvals"
    and q: "xvals ! (jj - 1) \<le> qvals ! i" "qvals ! i < xvals ! jj"
  shows "\<exists>out. spline_maker solve g xvals fvals qvals = Inr out \<and> length out = length qvals
      \<and> out ! i = cubic (avec ! (jj - 1)) (bvec ! (jj - 1)) (cvec ! (jj - 1)) (fvals ! (jj - 1))
                    (qvals ! i - xvals ! (jj - 1))"
proof -
  have "find (\<lambda>k. in_interval xvals k (qvals ! i)) (rev [1..<length fvals]) = Some jj"
  proof (rule find_unique)
    show "jj \<in> set (rev [1..<length fvals])" using jj by simp
    show "in_interval xvals jj (qvals ! i)" using q by (simp add: in_interval_def)
    show "y = jj" if "y \<in> set (rev [1..<length fvals])" "in_interval xvals y (qvals ! i)" for y
      using that jj q len by (intro in_interval_unique [OF inc, of jj y "qvals ! i"])
        (simp_all add: in_interval_def)
  qed
  then show ?thesis
    using i unfolding spline_maker_Inr [OF len ex acc iv]
    by (simp add: segment_value_def)
qed

subsection \<open>Running the model on the examples\<close>

lemmas eval_defs = spline_maker_def spline_setup_def divided_differences_def zeros_ivals_def
  tridiag_system_def np_broadcast_def np_divide_def bind_e_def slice_to_def np_array2_def
  spdiags_def spdiags_entry_def spline_segment_def nth_e_def masked_def cubic_def
  upt_rec numeral_2_eq_2 numeral_3_eq_3

lemma cramer2_solution:
  fixes a b c d r1 r2 :: real
  assumes "a * d - b * c \<noteq> 0"
  shows "a * ((d * r1 - b * r2) / (a * d - b * c)) + b * ((a * r2 - c * r1) / (a * d - b * c)) = r1"
    and "c * ((d * r1 - b * r2) / (a * d - b * c)) + d * ((a * r2 - c * r1) / (a * d - b * c)) = r2"
proof -
  define D where "D = a * d - b * c"
  have D: "D \<noteq> 0" using assms by (simp add: D_def)
  have "a * ((d * r1 - b * r2) / D) + b * ((a * r2 - c * r1) / D)
      = (a * (d * r1 - b * r2) + b * (a * r2 - c * r1)) / D"
    by (simp add: add_divide_distrib)
  also have "a * (d * r1 - b * r2) + b * (a * r2 - c * r1) = r1 * D"
    by (simp add: D_def algebra_simps)
  finally show "a * ((d * r1 - b * r2) / (a * d - b * c)) + b * ((a * r2 - c * r1) / (a * d - b * c)) = r1"
    using D by (simp add: D_def)
  have "c * ((d * r1 - b * r2) / D) + d * ((a * r2 - c * r1) / D)
      = (c * (d * r1 - b * r2) + d * (a * r2 - c * r1)) / D"
    by (simp add: add_divide_distrib)
  also have "c * (d * r1 - b * r2) + d * (a * r2 - c * r1) = r2 * D"
    by (simp add: D_def algebra_simps)
  finally show "c * ((d * r1 - b * r2) / (a * d - b * c)) + d * ((a * r2 - c * r1) / (a * d - b * c)) = r2"
    using D by (simp add: D_def)
qed

lemma cramer2_exact: "exact_solver cramer2"
  unfolding exact_solver_def
proof (intro allI impI)
  fix A r bs
  assume "cramer2 A r = Inr bs"
  then show "length bs = length r \<and> mat_vec A bs = r"
  proof (cases rule: cramer2.elims)
    case (1 a b c d r1 r2)
    then have D: "a * d - b * c \<noteq> 0"
      and bs: "bs = [(d * r1 - b * r2) / (a * d - b * c), (a * r2 - c * r1) / (a * d - b * c)]"
      by (simp_all split: if_splits)
    show ?thesis
      unfolding 1(1,2) bs mat_vec_def
      using cramer2_solution [OF D, of r1 r2] by simp
  qed simp_all
qed

lemma setup_example:
  "spline_setup cramer2 \<lparr>ivals = Some iv, ipoly = p\<rparr> [0, 1, 2, 3] [0, 1, 0, 1]
   = Inr (replicate (length iv) 0, [- 2 / 3, 4 / 3, - 2 / 3], [0, - 2, 2], [5 / 3, - 1 / 3, - 1 / 3])"
  by (simp add: spline_setup_def divided_differences_def zeros_ivals_def tridiag_system_def
      np_broadcast_def np_divide_def bind_e_def slice_to_def np_array2_def spdiags_def
      spdiags_entry_def upt_rec numeral_2_eq_2 numeral_3_eq_3)

lemma example_hyps:
  "length [0, 1, 2, 3 :: real] = length [0, 1, 0, 1 :: real]"
  "spline_setup cramer2 \<lparr>ivals = Some [0, 0, 0], ipoly = None\<rparr> [0, 1, 2, 3] [0, 1, 0, 1]
     = Inr ([0, 0, 0], [- 2 / 3, 4 / 3, - 2 / 3], [0, - 2, 2], [5 / 3, - 1 / 3, - 1 / 3])"
  "sorted_wrt (<) [0, 1, 2, 3 :: real]"
  by (simp_all add: setup_example)

section \<open>The claims\<close>

text \<open>
  C1. The specification closes the last interval on the right, so that a query at the last
  node \<open>x\<^sub>n\<close> is given the last segment's cubic. The loop tests \<^verbatim>\<open>qvals < xvals[jj]\<close> in
  every pass, the last one included: on the nodes \<open>0, 1, 2, 3\<close> with values \<open>0, 1, 0, 1\<close>
  the query \<open>3\<close> keeps the \<open>0\<close> of the initialisation, where the last segment's cubic,
  with the coefficients the code itself computes, is \<open>1\<close> there.
\<close>

theorem spline_maker_right_endpoint_zero:
  "spline_maker cramer2 \<lparr>ivals = Some [3], ipoly = None\<rparr> [0, 1, 2, 3] [0, 1, 0, 1] [3] = Inr [0]
   \<and> spline_setup cramer2 \<lparr>ivals = Some [3], ipoly = None\<rparr> [0, 1, 2, 3] [0, 1, 0, 1]
       = Inr ([0], [- 2 / 3, 4 / 3, - 2 / 3], [0, - 2, 2], [5 / 3, - 1 / 3, - 1 / 3])
   \<and> segment_value [0, 1, 2, 3] [0, 1, 0, 1] [- 2 / 3, 4 / 3, - 2 / 3] [0, - 2, 2]
        [5 / 3, - 1 / 3, - 1 / 3] 2 3 = 1"
  by (simp add: eval_defs segment_value_def)

text \<open>
  C2. For strictly increasing nodes \<open>x\<^sub>0 < \<dots> < x\<^sub>n\<close>, at least three of them (so for
  \<open>n \<ge> 3\<close> in particular), lines 385 to 395 build an \<open>n-1\<close> by \<open>n-1\<close> system whose row \<open>i\<close> (the equation of
  the unknown \<open>b\<^bsub>i+1\<^esub>\<close>) has the diagonal entry \<open>2/3 (\<delta>x\<^sub>i + \<delta>x\<^bsub>i+1\<^esub>)\<close>, the
  super-diagonal entry \<open>\<delta>x\<^bsub>i+1\<^esub>/3\<close>, the sub-diagonal entry \<open>\<delta>x\<^sub>i/3\<close> and zeros elsewhere, which
  is symmetric, and whose right-hand side is \<open>g\<^bsub>i+1\<^esub> - g\<^sub>i\<close>. The system is solved: when
  the global \<^verbatim>\<open>ivals\<close> is bound and the solver returns a vector \<open>bs\<close> of the system's
  size, the set-up of \<^verbatim>\<open>spline_maker\<close> returns with \<^verbatim>\<open>bvec\<close> equal to \<open>bs\<close> with
  \<open>b\<^sub>0 = 0\<close> put in front; and whenever the set-up returns, its \<^verbatim>\<open>bvec\<close> is of that form.
\<close>

theorem tridiagonal_system_assembled:
  assumes "length xvals = length fvals" and "3 \<le> length fvals" and "sorted_wrt (<) xvals"
  shows "\<exists>dx dfdx Bmat rhs.
      divided_differences xvals fvals = Inr (dx, dfdx)
    \<and> tridiag_system (int (length fvals) - 1) dx dfdx = Inr (Bmat, rhs)
    \<and> length Bmat = length fvals - 2 \<and> length rhs = length fvals - 2
    \<and> (\<forall>i<length fvals - 2.
          length (Bmat ! i) = length fvals - 2
        \<and> Bmat ! i ! i = 2 / 3 * (dx_at xvals i + dx_at xvals (i + 1))
        \<and> (i + 1 < length fvals - 2 \<longrightarrow> Bmat ! i ! (i + 1) = dx_at xvals (i + 1) / 3)
        \<and> (1 \<le> i \<longrightarrow> Bmat ! i ! (i - 1) = dx_at xvals i / 3)
        \<and> (\<forall>j<length fvals - 2.
              (j + 1 < i \<or> i + 1 < j \<longrightarrow> Bmat ! i ! j = 0) \<and> Bmat ! i ! j = Bmat ! j ! i)
        \<and> rhs ! i = g_at xvals fvals (i + 1) - g_at xvals fvals i)
    \<and> (\<forall>iv bs. ivals g = Some iv \<and> solve Bmat rhs = Inr bs \<and> length bs = length rhs
          \<longrightarrow> (\<exists>avec cvec. spline_setup solve g xvals fvals
                 = Inr (replicate (length iv) 0, avec, 0 # bs, cvec)))
    \<and> (\<forall>svals avec bvec cvec.
          spline_setup solve g xvals fvals = Inr (svals, avec, bvec, cvec)
          \<longrightarrow> (\<exists>bs. solve Bmat rhs = Inr bs \<and> bvec = 0 # bs))"
proof -
  let ?n = "length fvals - 1"
  let ?m = "length fvals - 2"
  let ?dx = "map (dx_at xvals) [0..<?n]"
  let ?dfdx = "map (g_at xvals fvals) [0..<?n]"
  let ?B = "map (\<lambda>i. map (tri_entry ?dx i) [0..<?m]) [0..<?m]"
  let ?rhs = "map (\<lambda>i. ?dfdx ! Suc i - ?dfdx ! i) [0..<?m]"
  have "0 \<notin> dx_at xvals ` {0..<?n}"
  proof
    assume "0 \<in> dx_at xvals ` {0..<?n}"
    then obtain j where "j < ?n" "dx_at xvals j = 0" by auto
    moreover from this(1) have "0 < dx_at xvals j"
      using assms(1) by (intro sorted_wrt_dx_at [OF assms(3)]) simp
    ultimately show False by simp
  qed
  then have dd: "divided_differences xvals fvals = Inr (?dx, ?dfdx)"
    by (simp add: divided_differences_eq [OF assms(1)])
  have nint: "int (length fvals) - 1 = int ?n" and n0: "?n \<noteq> 0" and nm: "?n - 1 = ?m"
    using assms(2) by simp_all
  have ts: "tridiag_system (int (length fvals) - 1) ?dx ?dfdx = Inr (?B, ?rhs)"
    unfolding nint using tridiag_system_Inr [of ?dx ?n ?dfdx] n0 nm by simp
  have ent: "?B ! i ! j = tri_entry ?dx i j" if "i < ?m" "j < ?m" for i j
    using that by simp
  have dxn: "?dx ! k = dx_at xvals k" if "k < ?n" for k
    using that by simp
  have rows: "length (?B ! i) = ?m
        \<and> ?B ! i ! i = 2 / 3 * (dx_at xvals i + dx_at xvals (i + 1))
        \<and> (i + 1 < ?m \<longrightarrow> ?B ! i ! (i + 1) = dx_at xvals (i + 1) / 3)
        \<and> (1 \<le> i \<longrightarrow> ?B ! i ! (i - 1) = dx_at xvals i / 3)
        \<and> (\<forall>j<?m. (j + 1 < i \<or> i + 1 < j \<longrightarrow> ?B ! i ! j = 0) \<and> ?B ! i ! j = ?B ! j ! i)
        \<and> ?rhs ! i = g_at xvals fvals (i + 1) - g_at xvals fvals i" if i: "i < ?m" for i
  proof (intro conjI allI impI)
    have in': "i < ?n" "Suc i < ?n" using i by linarith+
    show "length (?B ! i) = ?m" using i by simp
    show "?B ! i ! i = 2 / 3 * (dx_at xvals i + dx_at xvals (i + 1))"
      unfolding ent [OF i i] tri_entry_def using dxn [OF in'(1)] dxn [OF in'(2)] by simp
    show "?B ! i ! (i + 1) = dx_at xvals (i + 1) / 3" if "i + 1 < ?m"
      unfolding ent [OF i that] tri_entry_def using dxn [OF in'(2)] by simp
    show "?B ! i ! (i - 1) = dx_at xvals i / 3" if "1 \<le> i"
    proof -
      note pos = that
      obtain k where k: "i = Suc k" using pos by (cases i) simp_all
      have km: "k < ?m" using i k by simp
      have "?B ! Suc k ! k = dx_at xvals (Suc k) / 3"
        unfolding ent [OF i [unfolded k] km] tri_entry_def using dxn [OF in'(1)] k by simp
      then show ?thesis by (simp add: k)
    qed
    show "?B ! i ! j = 0" if "j < ?m" "j + 1 < i \<or> i + 1 < j" for j
      unfolding ent [OF i that(1)] tri_entry_def using that(2) by auto
    show "?B ! i ! j = ?B ! j ! i" if "j < ?m" for j
      unfolding ent [OF i that] ent [OF that i] tri_entry_def by auto
    show "?rhs ! i = g_at xvals fvals (i + 1) - g_at xvals fvals i"
      using i in' by simp
  qed
  have solved: "\<exists>bs. solve ?B ?rhs = Inr bs \<and> bvec = 0 # bs"
    if "spline_setup solve g xvals fvals = Inr (svals, avec, bvec, cvec)" for svals avec bvec cvec
    using spline_setup_solved [OF that dd ts] .
  have rows': "\<forall>i<?m. length (?B ! i) = ?m
        \<and> ?B ! i ! i = 2 / 3 * (dx_at xvals i + dx_at xvals (i + 1))
        \<and> (i + 1 < ?m \<longrightarrow> ?B ! i ! (i + 1) = dx_at xvals (i + 1) / 3)
        \<and> (1 \<le> i \<longrightarrow> ?B ! i ! (i - 1) = dx_at xvals i / 3)
        \<and> (\<forall>j<?m. (j + 1 < i \<or> i + 1 < j \<longrightarrow> ?B ! i ! j = 0) \<and> ?B ! i ! j = ?B ! j ! i)
        \<and> ?rhs ! i = g_at xvals fvals (i + 1) - g_at xvals fvals i"
    using rows by blast
  have solved': "\<forall>svals avec bvec cvec.
          spline_setup solve g xvals fvals = Inr (svals, avec, bvec, cvec)
          \<longrightarrow> (\<exists>bs. solve ?B ?rhs = Inr bs \<and> bvec = 0 # bs)"
    using solved by blast
  have runs: "\<forall>iv bs. ivals g = Some iv \<and> solve ?B ?rhs = Inr bs \<and> length bs = length ?rhs
          \<longrightarrow> (\<exists>avec cvec. spline_setup solve g xvals fvals
                 = Inr (replicate (length iv) 0, avec, 0 # bs, cvec))"
  proof (intro allI impI, elim conjE)
    fix iv bs
    assume "ivals g = Some iv" "solve ?B ?rhs = Inr bs" "length bs = length ?rhs"
    from spline_setup_forward [where solve = solve, OF assms(1) dd ts this(2,3,1)]
    show "\<exists>avec cvec. spline_setup solve g xvals fvals
        = Inr (replicate (length iv) 0, avec, 0 # bs, cvec)"
      by blast
  qed
  have lens: "length ?B = ?m" "length ?rhs = ?m"
    by simp_all
  show ?thesis
    by (rule exI [of _ ?dx], rule exI [of _ ?dfdx], rule exI [of _ ?B], rule exI [of _ ?rhs])
      (intro conjI; fact dd ts lens rows' runs solved')
qed

theorem tridiagonal_system_assembled_witness:
  "(length [0, 1, 2, 3 :: real] = length [0, 1, 0, 1 :: real])
   \<and> (3 \<le> length [0, 1, 0, 1 :: real])
   \<and> (sorted_wrt (<) [0, 1, 2, 3 :: real])
   \<and> (\<exists>avec cvec. spline_setup cramer2 \<lparr>ivals = Some [0, 0, 0], ipoly = None\<rparr> [0, 1, 2, 3 :: real] [0, 1, 0, 1 :: real]
         = Inr ([0, 0, 0], avec, [0, - 2, 2], cvec))
   \<and> (\<exists>dx dfdx Bmat rhs.
      divided_differences [0, 1, 2, 3 :: real] [0, 1, 0, 1 :: real] = Inr (dx, dfdx)
    \<and> tridiag_system (int (length [0, 1, 0, 1 :: real]) - 1) dx dfdx = Inr (Bmat, rhs)
    \<and> length Bmat = length [0, 1, 0, 1 :: real] - 2 \<and> length rhs = length [0, 1, 0, 1 :: real] - 2
    \<and> (\<forall>i<length [0, 1, 0, 1 :: real] - 2.
          length (Bmat ! i) = length [0, 1, 0, 1 :: real] - 2
        \<and> Bmat ! i ! i = 2 / 3 * (dx_at [0, 1, 2, 3 :: real] i + dx_at [0, 1, 2, 3 :: real] (i + 1))
        \<and> (i + 1 < length [0, 1, 0, 1 :: real] - 2 \<longrightarrow> Bmat ! i ! (i + 1) = dx_at [0, 1, 2, 3 :: real] (i + 1) / 3)
        \<and> (1 \<le> i \<longrightarrow> Bmat ! i ! (i - 1) = dx_at [0, 1, 2, 3 :: real] i / 3)
        \<and> (\<forall>j<length [0, 1, 0, 1 :: real] - 2.
              (j + 1 < i \<or> i + 1 < j \<longrightarrow> Bmat ! i ! j = 0) \<and> Bmat ! i ! j = Bmat ! j ! i)
        \<and> rhs ! i = g_at [0, 1, 2, 3 :: real] [0, 1, 0, 1 :: real] (i + 1) - g_at [0, 1, 2, 3 :: real] [0, 1, 0, 1 :: real] i)
    \<and> (\<forall>iv bs. ivals \<lparr>ivals = Some [0, 0, 0], ipoly = None\<rparr> = Some iv \<and> cramer2 Bmat rhs = Inr bs \<and> length bs = length rhs
          \<longrightarrow> (\<exists>avec cvec. spline_setup cramer2 \<lparr>ivals = Some [0, 0, 0], ipoly = None\<rparr> [0, 1, 2, 3 :: real] [0, 1, 0, 1 :: real]
                 = Inr (replicate (length iv) 0, avec, 0 # bs, cvec)))
    \<and> (\<forall>svals avec bvec cvec.
          spline_setup cramer2 \<lparr>ivals = Some [0, 0, 0], ipoly = None\<rparr> [0, 1, 2, 3 :: real] [0, 1, 0, 1 :: real] = Inr (svals, avec, bvec, cvec)
          \<longrightarrow> (\<exists>bs. cramer2 Bmat rhs = Inr bs \<and> bvec = 0 # bs)))"
proof -
  have h1: "length [0, 1, 2, 3 :: real] = length [0, 1, 0, 1 :: real]"
    by simp
  have h2: "3 \<le> length [0, 1, 0, 1 :: real]"
    by simp
  have h3: "sorted_wrt (<) [0, 1, 2, 3 :: real]"
    by simp
  from tridiagonal_system_assembled [OF h1 h2 h3]
  have c: "\<exists>dx dfdx Bmat rhs.
      divided_differences [0, 1, 2, 3 :: real] [0, 1, 0, 1 :: real] = Inr (dx, dfdx)
    \<and> tridiag_system (int (length [0, 1, 0, 1 :: real]) - 1) dx dfdx = Inr (Bmat, rhs)
    \<and> length Bmat = length [0, 1, 0, 1 :: real] - 2 \<and> length rhs = length [0, 1, 0, 1 :: real] - 2
    \<and> (\<forall>i<length [0, 1, 0, 1 :: real] - 2.
          length (Bmat ! i) = length [0, 1, 0, 1 :: real] - 2
        \<and> Bmat ! i ! i = 2 / 3 * (dx_at [0, 1, 2, 3 :: real] i + dx_at [0, 1, 2, 3 :: real] (i + 1))
        \<and> (i + 1 < length [0, 1, 0, 1 :: real] - 2 \<longrightarrow> Bmat ! i ! (i + 1) = dx_at [0, 1, 2, 3 :: real] (i + 1) / 3)
        \<and> (1 \<le> i \<longrightarrow> Bmat ! i ! (i - 1) = dx_at [0, 1, 2, 3 :: real] i / 3)
        \<and> (\<forall>j<length [0, 1, 0, 1 :: real] - 2.
              (j + 1 < i \<or> i + 1 < j \<longrightarrow> Bmat ! i ! j = 0) \<and> Bmat ! i ! j = Bmat ! j ! i)
        \<and> rhs ! i = g_at [0, 1, 2, 3 :: real] [0, 1, 0, 1 :: real] (i + 1) - g_at [0, 1, 2, 3 :: real] [0, 1, 0, 1 :: real] i)
    \<and> (\<forall>iv bs. ivals \<lparr>ivals = Some [0, 0, 0], ipoly = None\<rparr> = Some iv \<and> cramer2 Bmat rhs = Inr bs \<and> length bs = length rhs
          \<longrightarrow> (\<exists>avec cvec. spline_setup cramer2 \<lparr>ivals = Some [0, 0, 0], ipoly = None\<rparr> [0, 1, 2, 3 :: real] [0, 1, 0, 1 :: real]
                 = Inr (replicate (length iv) 0, avec, 0 # bs, cvec)))
    \<and> (\<forall>svals avec bvec cvec.
          spline_setup cramer2 \<lparr>ivals = Some [0, 0, 0], ipoly = None\<rparr> [0, 1, 2, 3 :: real] [0, 1, 0, 1 :: real] = Inr (svals, avec, bvec, cvec)
          \<longrightarrow> (\<exists>bs. cramer2 Bmat rhs = Inr bs \<and> bvec = 0 # bs))" .
  then obtain dx dfdx Bmat rhs where
    dd: "divided_differences [0, 1, 2, 3 :: real] [0, 1, 0, 1 :: real] = Inr (dx, dfdx)"
    and ts: "tridiag_system (int (length [0, 1, 0, 1 :: real]) - 1) dx dfdx = Inr (Bmat, rhs)"
    and runs: "\<forall>iv bs. ivals \<lparr>ivals = Some [0, 0, 0], ipoly = None\<rparr> = Some iv \<and> cramer2 Bmat rhs = Inr bs \<and> length bs = length rhs
          \<longrightarrow> (\<exists>avec cvec. spline_setup cramer2 \<lparr>ivals = Some [0, 0, 0], ipoly = None\<rparr> [0, 1, 2, 3 :: real] [0, 1, 0, 1 :: real]
                 = Inr (replicate (length iv) 0, avec, 0 # bs, cvec))"
    by (elim exE conjE) (rule that)
  from dd have dx: "dx = [1, 1, 1]" "dfdx = [1, - 1, 1]"
    by (simp_all add: eval_defs)
  from ts have sys: "Bmat = [[4 / 3, 1 / 3], [1 / 3, 4 / 3]]" "rhs = [- 2, 2]"
    unfolding dx by (simp_all add: eval_defs)
  have "ivals \<lparr>ivals = Some [0, 0, 0], ipoly = None\<rparr> = Some [0, 0, 0] \<and> cramer2 Bmat rhs = Inr [- 2, 2]
      \<and> length [- 2, 2 :: real] = length rhs"
    unfolding sys by simp
  with runs have "\<exists>avec cvec. spline_setup cramer2 \<lparr>ivals = Some [0, 0, 0], ipoly = None\<rparr> [0, 1, 2, 3 :: real] [0, 1, 0, 1 :: real]
      = Inr (replicate (length [0, 0, 0 :: real]) 0, avec, 0 # [- 2, 2], cvec)"
    by (elim allE impE) assumption
  then have r: "\<exists>avec cvec. spline_setup cramer2 \<lparr>ivals = Some [0, 0, 0], ipoly = None\<rparr> [0, 1, 2, 3 :: real] [0, 1, 0, 1 :: real]
         = Inr ([0, 0, 0], avec, [0, - 2, 2], cvec)"
    by (simp add: numeral_3_eq_3)
  from h1 h2 h3 r c show ?thesis by blast
qed

text \<open>
  C3. When the set-up of \<^verbatim>\<open>spline_maker\<close> succeeds on a Sample Set (as many nodes as
  values) with a solver that returns a solution of its system, then for every interval
  \<open>j = 0..n-1\<close>: \<open>c\<^sub>j = g\<^sub>j - \<delta>x\<^sub>j/3 (2 b\<^sub>j + b\<^bsub>j+1\<^esub>)\<close> with \<open>b\<^sub>n\<close> taken as \<open>0\<close>,
  \<open>a\<^sub>j = (g\<^sub>j - \<delta>x\<^sub>j b\<^sub>j - c\<^sub>j) / \<delta>x\<^sub>j\<^sup>2\<close>, and the cubic that pass \<open>j+1\<close> of the loop writes
  has the constant term \<open>d\<^sub>j = f\<^sub>j\<close>.
\<close>

theorem spline_coefficients:
  assumes "length xvals = length fvals" and "exact_solver solve"
    and "spline_setup solve g xvals fvals = Inr (svals, avec, bvec, cvec)"
    and "j < length fvals - 1"
  shows "cvec ! j = g_at xvals fvals j
           - dx_at xvals j / 3 * (2 * bvec ! j + (if j + 1 < length fvals - 1 then bvec ! (j + 1) else 0))
       \<and> avec ! j = (g_at xvals fvals j - dx_at xvals j * bvec ! j - cvec ! j) / (dx_at xvals j) ^ 2
       \<and> spline_segment xvals fvals avec bvec cvec [q] (j + 1) [s]
           = Inr [if xvals ! j \<le> q \<and> q < xvals ! (j + 1)
                  then avec ! j * (q - xvals ! j) ^ 3 + bvec ! j * (q - xvals ! j) ^ 2
                       + cvec ! j * (q - xvals ! j) + fvals ! j
                  else s]"
proof (intro conjI)
  note co = spline_setup_coeffs [OF assms(1,2,3)]
  show "cvec ! j = g_at xvals fvals j
           - dx_at xvals j / 3 * (2 * bvec ! j + (if j + 1 < length fvals - 1 then bvec ! (j + 1) else 0))"
    using co(7) [OF assms(4)] by (cases "Suc j < length fvals - 1") (simp_all add: algebra_simps)
  show "avec ! j = (g_at xvals fvals j - dx_at xvals j * bvec ! j - cvec ! j) / (dx_at xvals j) ^ 2"
    using co(8) [OF assms(4)] .
  have "spline_segment xvals fvals avec bvec cvec [q] (Suc j) [s]
      = Inr (map2 (\<lambda>s q. if in_interval xvals (Suc j) q
                        then segment_value xvals fvals avec bvec cvec (Suc j - 1) q else s) [s] [q])"
    using assms(1,4) co(2,3,4) by (intro spline_segment_Inr) simp_all
  then show "spline_segment xvals fvals avec bvec cvec [q] (j + 1) [s]
           = Inr [if xvals ! j \<le> q \<and> q < xvals ! (j + 1)
                  then avec ! j * (q - xvals ! j) ^ 3 + bvec ! j * (q - xvals ! j) ^ 2
                       + cvec ! j * (q - xvals ! j) + fvals ! j
                  else s]"
    by (simp add: in_interval_def segment_value_def cubic_def)
qed

theorem spline_coefficients_witness:
  "(length [0, 1, 2, 3 :: real] = length [0, 1, 0, 1 :: real])
   \<and> (exact_solver cramer2)
   \<and> (spline_setup cramer2 \<lparr>ivals = Some [0, 0, 0], ipoly = None\<rparr> [0, 1, 2, 3 :: real] [0, 1, 0, 1 :: real] = Inr ([0, 0, 0 :: real], [- 2 / 3, 4 / 3, - 2 / 3 :: real], [0, - 2, 2 :: real], [5 / 3, - 1 / 3, - 1 / 3 :: real]))
   \<and> ((1 :: nat) < length [0, 1, 0, 1 :: real] - 1)
   \<and> ([5 / 3, - 1 / 3, - 1 / 3 :: real] ! (1 :: nat) = g_at [0, 1, 2, 3 :: real] [0, 1, 0, 1 :: real] (1 :: nat)
           - dx_at [0, 1, 2, 3 :: real] (1 :: nat) / 3 * (2 * [0, - 2, 2 :: real] ! (1 :: nat) + (if (1 :: nat) + 1 < length [0, 1, 0, 1 :: real] - 1 then [0, - 2, 2 :: real] ! ((1 :: nat) + 1) else 0))
       \<and> [- 2 / 3, 4 / 3, - 2 / 3 :: real] ! (1 :: nat) = (g_at [0, 1, 2, 3 :: real] [0, 1, 0, 1 :: real] (1 :: nat) - dx_at [0, 1, 2, 3 :: real] (1 :: nat) * [0, - 2, 2 :: real] ! (1 :: nat) - [5 / 3, - 1 / 3, - 1 / 3 :: real] ! (1 :: nat)) / (dx_at [0, 1, 2, 3 :: real] (1 :: nat)) ^ 2
       \<and> spline_segment [0, 1, 2, 3 :: real] [0, 1, 0, 1 :: real] [- 2 / 3, 4 / 3, - 2 / 3 :: real] [0, - 2, 2 :: real] [5 / 3, - 1 / 3, - 1 / 3 :: real] [(3 / 2)] ((1 :: nat) + 1) [0]
           = Inr [if [0, 1, 2, 3 :: real] ! (1 :: nat) \<le> (3 / 2) \<and> (3 / 2) < [0, 1, 2, 3 :: real] ! ((1 :: nat) + 1)
                  then [- 2 / 3, 4 / 3, - 2 / 3 :: real] ! (1 :: nat) * ((3 / 2) - [0, 1, 2, 3 :: real] ! (1 :: nat)) ^ 3 + [0, - 2, 2 :: real] ! (1 :: nat) * ((3 / 2) - [0, 1, 2, 3 :: real] ! (1 :: nat)) ^ 2
                       + [5 / 3, - 1 / 3, - 1 / 3 :: real] ! (1 :: nat) * ((3 / 2) - [0, 1, 2, 3 :: real] ! (1 :: nat)) + [0, 1, 0, 1 :: real] ! (1 :: nat)
                  else 0])"
proof -
  have h1: "length [0, 1, 2, 3 :: real] = length [0, 1, 0, 1 :: real]"
    by (simp add: example_hyps cramer2_exact)
  have h2: "exact_solver cramer2"
    by (simp add: example_hyps cramer2_exact)
  have h3: "spline_setup cramer2 \<lparr>ivals = Some [0, 0, 0], ipoly = None\<rparr> [0, 1, 2, 3 :: real] [0, 1, 0, 1 :: real] = Inr ([0, 0, 0 :: real], [- 2 / 3, 4 / 3, - 2 / 3 :: real], [0, - 2, 2 :: real], [5 / 3, - 1 / 3, - 1 / 3 :: real])"
    by (simp add: example_hyps cramer2_exact)
  have h4: "(1 :: nat) < length [0, 1, 0, 1 :: real] - 1"
    by (simp add: example_hyps cramer2_exact)
  from spline_coefficients [OF h1 h2 h3 h4]
  have c: "[5 / 3, - 1 / 3, - 1 / 3 :: real] ! (1 :: nat) = g_at [0, 1, 2, 3 :: real] [0, 1, 0, 1 :: real] (1 :: nat)
           - dx_at [0, 1, 2, 3 :: real] (1 :: nat) / 3 * (2 * [0, - 2, 2 :: real] ! (1 :: nat) + (if (1 :: nat) + 1 < length [0, 1, 0, 1 :: real] - 1 then [0, - 2, 2 :: real] ! ((1 :: nat) + 1) else 0))
       \<and> [- 2 / 3, 4 / 3, - 2 / 3 :: real] ! (1 :: nat) = (g_at [0, 1, 2, 3 :: real] [0, 1, 0, 1 :: real] (1 :: nat) - dx_at [0, 1, 2, 3 :: real] (1 :: nat) * [0, - 2, 2 :: real] ! (1 :: nat) - [5 / 3, - 1 / 3, - 1 / 3 :: real] ! (1 :: nat)) / (dx_at [0, 1, 2, 3 :: real] (1 :: nat)) ^ 2
       \<and> spline_segment [0, 1, 2, 3 :: real] [0, 1, 0, 1 :: real] [- 2 / 3, 4 / 3, - 2 / 3 :: real] [0, - 2, 2 :: real] [5 / 3, - 1 / 3, - 1 / 3 :: real] [(3 / 2)] ((1 :: nat) + 1) [0]
           = Inr [if [0, 1, 2, 3 :: real] ! (1 :: nat) \<le> (3 / 2) \<and> (3 / 2) < [0, 1, 2, 3 :: real] ! ((1 :: nat) + 1)
                  then [- 2 / 3, 4 / 3, - 2 / 3 :: real] ! (1 :: nat) * ((3 / 2) - [0, 1, 2, 3 :: real] ! (1 :: nat)) ^ 3 + [0, - 2, 2 :: real] ! (1 :: nat) * ((3 / 2) - [0, 1, 2, 3 :: real] ! (1 :: nat)) ^ 2
                       + [5 / 3, - 1 / 3, - 1 / 3 :: real] ! (1 :: nat) * ((3 / 2) - [0, 1, 2, 3 :: real] ! (1 :: nat)) + [0, 1, 0, 1 :: real] ! (1 :: nat)
                  else 0]" .
  from h1 h2 h3 h4 c show ?thesis by blast
qed

text \<open>
  C4. In exact arithmetic and with an exact solver, at every interior node \<open>x\<^sub>j\<close>,
  \<open>j = 1..n-1\<close>, the cubics of the segments \<open>j-1\<close> and \<open>j\<close> agree in value, in first
  derivative and in second derivative.
\<close>

theorem spline_continuity:
  assumes "length xvals = length fvals" and "exact_solver solve"
    and "spline_setup solve g xvals fvals = Inr (svals, avec, bvec, cvec)"
    and "1 \<le> j" and "j < length fvals - 1"
  shows "segment_value xvals fvals avec bvec cvec (j - 1) (xvals ! j)
           = segment_value xvals fvals avec bvec cvec j (xvals ! j)
       \<and> (\<exists>L' R'. (\<forall>x. DERIV (segment_value xvals fvals avec bvec cvec (j - 1)) x :> L' x)
             \<and> (\<forall>x. DERIV (segment_value xvals fvals avec bvec cvec j) x :> R' x)
             \<and> L' (xvals ! j) = R' (xvals ! j)
             \<and> (\<exists>D. DERIV L' (xvals ! j) :> D \<and> DERIV R' (xvals ! j) :> D))"
proof -
  note co = spline_setup_coeffs [OF assms(1,2,3)]
  let ?n = "length fvals - 1"
  obtain k where j: "j = Suc k" using assms(4) by (cases j) simp_all
  have k: "k < ?n" "k < length fvals - 2" and jn: "Suc k < ?n"
    using assms(5) j by simp_all
  define h where "h = dx_at xvals k"
  define h' where "h' = dx_at xvals (Suc k)"
  define b'' where "b'' = (if Suc (Suc k) < ?n then bvec ! Suc (Suc k) else 0)"
  have h: "h \<noteq> 0" and xj: "xvals ! Suc k - xvals ! k = h"
    using co(6) [OF k(1)] by (simp_all add: h_def dx_at_def)
  have ck: "cvec ! k = g_at xvals fvals k - 2 / 3 * h * bvec ! k - h / 3 * bvec ! Suc k"
    using co(7) [OF k(1)] jn by (simp add: h_def)
  have ak: "avec ! k = (g_at xvals fvals k - h * bvec ! k - cvec ! k) / h ^ 2"
    using co(8) [OF k(1)] by (simp add: h_def)
  have cj: "cvec ! Suc k = g_at xvals fvals (Suc k) - 2 / 3 * h' * bvec ! Suc k - h' / 3 * b''"
    using co(7) [OF jn] by (simp add: h'_def b''_def)
  have row: "h / 3 * bvec ! k + 2 / 3 * (h' + h) * bvec ! Suc k + h' / 3 * b''
      = g_at xvals fvals (Suc k) - g_at xvals fvals k"
    using co(9) [OF k(2)] by (simp add: h_def h'_def b''_def)
  note join = cubic_join [OF h ck ak]
  have gh: "g_at xvals fvals k * h = fvals ! Suc k - fvals ! k"
    using h by (simp add: g_at_def h_def dx_at_def)
  let ?L = "\<lambda>x. 3 * avec ! k * (x - xvals ! k) ^ 2 + 2 * bvec ! k * (x - xvals ! k) + cvec ! k"
  let ?R = "\<lambda>x. 3 * avec ! Suc k * (x - xvals ! Suc k) ^ 2 + 2 * bvec ! Suc k * (x - xvals ! Suc k)
      + cvec ! Suc k"
  have val: "segment_value xvals fvals avec bvec cvec k (xvals ! Suc k)
      = segment_value xvals fvals avec bvec cvec (Suc k) (xvals ! Suc k)"
    using join(1) gh by (simp add: segment_value_def cubic_def xj)
  have d1: "?L (xvals ! Suc k) = ?R (xvals ! Suc k)"
  proof -
    have "?L (xvals ! Suc k) = g_at xvals fvals k + h * bvec ! k / 3 + 2 / 3 * h * bvec ! Suc k"
      using join(2) by (simp add: xj)
    also have "\<dots> = cvec ! Suc k"
      using row unfolding cj by (simp add: field_simps)
    finally show ?thesis by simp
  qed
  have dL: "DERIV ?L (xvals ! Suc k) :> 2 * bvec ! Suc k"
    using segment_slope_DERIV [of "avec ! k" "xvals ! k" "bvec ! k" "cvec ! k" "xvals ! Suc k"]
      join(3) by (simp add: xj)
  have dR: "DERIV ?R (xvals ! Suc k) :> 2 * bvec ! Suc k"
    using segment_slope_DERIV [of "avec ! Suc k" "xvals ! Suc k" "bvec ! Suc k" "cvec ! Suc k" "xvals ! Suc k"]
    by simp
  have "\<exists>L' R'. (\<forall>x. DERIV (segment_value xvals fvals avec bvec cvec k) x :> L' x)
             \<and> (\<forall>x. DERIV (segment_value xvals fvals avec bvec cvec (Suc k)) x :> R' x)
             \<and> L' (xvals ! Suc k) = R' (xvals ! Suc k)
             \<and> (\<exists>D. DERIV L' (xvals ! Suc k) :> D \<and> DERIV R' (xvals ! Suc k) :> D)"
    using segment_value_DERIV d1 dL dR
    by (intro exI [of _ ?L] exI [of _ ?R] conjI allI exI [of _ "2 * bvec ! Suc k"])
  with val show ?thesis
    unfolding j by simp
qed

theorem spline_continuity_witness:
  "(length [0, 1, 2, 3 :: real] = length [0, 1, 0, 1 :: real])
   \<and> (exact_solver cramer2)
   \<and> (spline_setup cramer2 \<lparr>ivals = Some [0, 0, 0], ipoly = None\<rparr> [0, 1, 2, 3 :: real] [0, 1, 0, 1 :: real] = Inr ([0, 0, 0 :: real], [- 2 / 3, 4 / 3, - 2 / 3 :: real], [0, - 2, 2 :: real], [5 / 3, - 1 / 3, - 1 / 3 :: real]))
   \<and> (1 \<le> (1 :: nat))
   \<and> ((1 :: nat) < length [0, 1, 0, 1 :: real] - 1)
   \<and> (segment_value [0, 1, 2, 3 :: real] [0, 1, 0, 1 :: real] [- 2 / 3, 4 / 3, - 2 / 3 :: real] [0, - 2, 2 :: real] [5 / 3, - 1 / 3, - 1 / 3 :: real] ((1 :: nat) - 1) ([0, 1, 2, 3 :: real] ! (1 :: nat))
           = segment_value [0, 1, 2, 3 :: real] [0, 1, 0, 1 :: real] [- 2 / 3, 4 / 3, - 2 / 3 :: real] [0, - 2, 2 :: real] [5 / 3, - 1 / 3, - 1 / 3 :: real] (1 :: nat) ([0, 1, 2, 3 :: real] ! (1 :: nat))
       \<and> (\<exists>L' R'. (\<forall>x. DERIV (segment_value [0, 1, 2, 3 :: real] [0, 1, 0, 1 :: real] [- 2 / 3, 4 / 3, - 2 / 3 :: real] [0, - 2, 2 :: real] [5 / 3, - 1 / 3, - 1 / 3 :: real] ((1 :: nat) - 1)) x :> L' x)
             \<and> (\<forall>x. DERIV (segment_value [0, 1, 2, 3 :: real] [0, 1, 0, 1 :: real] [- 2 / 3, 4 / 3, - 2 / 3 :: real] [0, - 2, 2 :: real] [5 / 3, - 1 / 3, - 1 / 3 :: real] (1 :: nat)) x :> R' x)
             \<and> L' ([0, 1, 2, 3 :: real] ! (1 :: nat)) = R' ([0, 1, 2, 3 :: real] ! (1 :: nat))
             \<and> (\<exists>D. DERIV L' ([0, 1, 2, 3 :: real] ! (1 :: nat)) :> D \<and> DERIV R' ([0, 1, 2, 3 :: real] ! (1 :: nat)) :> D)))"
proof -
  have h1: "length [0, 1, 2, 3 :: real] = length [0, 1, 0, 1 :: real]"
    by (simp add: example_hyps cramer2_exact)
  have h2: "exact_solver cramer2"
    by (simp add: example_hyps cramer2_exact)
  have h3: "spline_setup cramer2 \<lparr>ivals = Some [0, 0, 0], ipoly = None\<rparr> [0, 1, 2, 3 :: real] [0, 1, 0, 1 :: real] = Inr ([0, 0, 0 :: real], [- 2 / 3, 4 / 3, - 2 / 3 :: real], [0, - 2, 2 :: real], [5 / 3, - 1 / 3, - 1 / 3 :: real])"
    by (simp add: example_hyps cramer2_exact)
  have h4: "1 \<le> (1 :: nat)"
    by (simp add: example_hyps cramer2_exact)
  have h5: "(1 :: nat) < length [0, 1, 0, 1 :: real] - 1"
    by (simp add: example_hyps cramer2_exact)
  from spline_continuity [OF h1 h2 h3 h4 h5]
  have c: "segment_value [0, 1, 2, 3 :: real] [0, 1, 0, 1 :: real] [- 2 / 3, 4 / 3, - 2 / 3 :: real] [0, - 2, 2 :: real] [5 / 3, - 1 / 3, - 1 / 3 :: real] ((1 :: nat) - 1) ([0, 1, 2, 3 :: real] ! (1 :: nat))
           = segment_value [0, 1, 2, 3 :: real] [0, 1, 0, 1 :: real] [- 2 / 3, 4 / 3, - 2 / 3 :: real] [0, - 2, 2 :: real] [5 / 3, - 1 / 3, - 1 / 3 :: real] (1 :: nat) ([0, 1, 2, 3 :: real] ! (1 :: nat))
       \<and> (\<exists>L' R'. (\<forall>x. DERIV (segment_value [0, 1, 2, 3 :: real] [0, 1, 0, 1 :: real] [- 2 / 3, 4 / 3, - 2 / 3 :: real] [0, - 2, 2 :: real] [5 / 3, - 1 / 3, - 1 / 3 :: real] ((1 :: nat) - 1)) x :> L' x)
             \<and> (\<forall>x. DERIV (segment_value [0, 1, 2, 3 :: real] [0, 1, 0, 1 :: real] [- 2 / 3, 4 / 3, - 2 / 3 :: real] [0, - 2, 2 :: real] [5 / 3, - 1 / 3, - 1 / 3 :: real] (1 :: nat)) x :> R' x)
             \<and> L' ([0, 1, 2, 3 :: real] ! (1 :: nat)) = R' ([0, 1, 2, 3 :: real] ! (1 :: nat))
             \<and> (\<exists>D. DERIV L' ([0, 1, 2, 3 :: real] ! (1 :: nat)) :> D \<and> DERIV R' ([0, 1, 2, 3 :: real] ! (1 :: nat)) :> D))" .
  from h1 h2 h3 h4 h5 c show ?thesis by blast
qed

text \<open>
  C5. In exact arithmetic and with an exact solver, the second derivative of the first
  segment's cubic at \<open>x\<^sub>0\<close> and that of the last segment's cubic at \<open>x\<^sub>n\<close> are zero.
\<close>

theorem spline_natural_boundary:
  assumes "length xvals = length fvals" and "exact_solver solve"
    and "spline_setup solve g xvals fvals = Inr (svals, avec, bvec, cvec)"
  shows "\<exists>F' L'. (\<forall>x. DERIV (segment_value xvals fvals avec bvec cvec 0) x :> F' x)
           \<and> DERIV F' (xvals ! 0) :> 0
           \<and> (\<forall>x. DERIV (segment_value xvals fvals avec bvec cvec (length fvals - 2)) x :> L' x)
           \<and> DERIV L' (xvals ! (length fvals - 1)) :> 0"
proof -
  note co = spline_setup_coeffs [OF assms(1,2,3)]
  let ?n = "length fvals - 1"
  let ?k = "length fvals - 2"
  have k: "?k < ?n" and sk: "Suc ?k = ?n" "\<not> Suc ?k < ?n"
    using co(1) by simp_all
  define h where "h = dx_at xvals ?k"
  have h: "h \<noteq> 0" and xn: "xvals ! ?n - xvals ! ?k = h"
    using co(6) [OF k] sk(1) by (simp_all add: h_def dx_at_def)
  have ck: "cvec ! ?k = g_at xvals fvals ?k - 2 / 3 * h * bvec ! ?k - h / 3 * 0"
    using co(7) [OF k] sk(2) by (simp add: h_def)
  have ak: "avec ! ?k = (g_at xvals fvals ?k - h * bvec ! ?k - cvec ! ?k) / h ^ 2"
    using co(8) [OF k] by (simp add: h_def)
  note join = cubic_join [OF h ck ak]
  let ?F = "\<lambda>x. 3 * avec ! 0 * (x - xvals ! 0) ^ 2 + 2 * bvec ! 0 * (x - xvals ! 0) + cvec ! 0"
  let ?L = "\<lambda>x. 3 * avec ! ?k * (x - xvals ! ?k) ^ 2 + 2 * bvec ! ?k * (x - xvals ! ?k) + cvec ! ?k"
  have dF: "DERIV ?F (xvals ! 0) :> 0"
    using segment_slope_DERIV [of "avec ! 0" "xvals ! 0" "bvec ! 0" "cvec ! 0" "xvals ! 0"] co(5)
    by simp
  have dL: "DERIV ?L (xvals ! ?n) :> 0"
    using segment_slope_DERIV [of "avec ! ?k" "xvals ! ?k" "bvec ! ?k" "cvec ! ?k" "xvals ! ?n"]
      join(3) xn by simp
  show ?thesis
    using segment_value_DERIV dF dL
    by (intro exI [of _ ?F] exI [of _ ?L] conjI allI)
qed

theorem spline_natural_boundary_witness:
  "(length [0, 1, 2, 3 :: real] = length [0, 1, 0, 1 :: real])
   \<and> (exact_solver cramer2)
   \<and> (spline_setup cramer2 \<lparr>ivals = Some [0, 0, 0], ipoly = None\<rparr> [0, 1, 2, 3 :: real] [0, 1, 0, 1 :: real] = Inr ([0, 0, 0 :: real], [- 2 / 3, 4 / 3, - 2 / 3 :: real], [0, - 2, 2 :: real], [5 / 3, - 1 / 3, - 1 / 3 :: real]))
   \<and> (\<exists>F' L'. (\<forall>x. DERIV (segment_value [0, 1, 2, 3 :: real] [0, 1, 0, 1 :: real] [- 2 / 3, 4 / 3, - 2 / 3 :: real] [0, - 2, 2 :: real] [5 / 3, - 1 / 3, - 1 / 3 :: real] 0) x :> F' x)
           \<and> DERIV F' ([0, 1, 2, 3 :: real] ! 0) :> 0
           \<and> (\<forall>x. DERIV (segment_value [0, 1, 2, 3 :: real] [0, 1, 0, 1 :: real] [- 2 / 3, 4 / 3, - 2 / 3 :: real] [0, - 2, 2 :: real] [5 / 3, - 1 / 3, - 1 / 3 :: real] (length [0, 1, 0, 1 :: real] - 2)) x :> L' x)
           \<and> DERIV L' ([0, 1, 2, 3 :: real] ! (length [0, 1, 0, 1 :: real] - 1)) :> 0)"
proof -
  have h1: "length [0, 1, 2, 3 :: real] = length [0, 1, 0, 1 :: real]"
    by (simp add: example_hyps cramer2_exact)
  have h2: "exact_solver cramer2"
    by (simp add: example_hyps cramer2_exact)
  have h3: "spline_setup cramer2 \<lparr>ivals = Some [0, 0, 0], ipoly = None\<rparr> [0, 1, 2, 3 :: real] [0, 1, 0, 1 :: real] = Inr ([0, 0, 0 :: real], [- 2 / 3, 4 / 3, - 2 / 3 :: real], [0, - 2, 2 :: real], [5 / 3, - 1 / 3, - 1 / 3 :: real])"
    by (simp add: example_hyps cramer2_exact)
  from spline_natural_boundary [OF h1 h2 h3]
  have c: "\<exists>F' L'. (\<forall>x. DERIV (segment_value [0, 1, 2, 3 :: real] [0, 1, 0, 1 :: real] [- 2 / 3, 4 / 3, - 2 / 3 :: real] [0, - 2, 2 :: real] [5 / 3, - 1 / 3, - 1 / 3 :: real] 0) x :> F' x)
           \<and> DERIV F' ([0, 1, 2, 3 :: real] ! 0) :> 0
           \<and> (\<forall>x. DERIV (segment_value [0, 1, 2, 3 :: real] [0, 1, 0, 1 :: real] [- 2 / 3, 4 / 3, - 2 / 3 :: real] [0, - 2, 2 :: real] [5 / 3, - 1 / 3, - 1 / 3 :: real] (length [0, 1, 0, 1 :: real] - 2)) x :> L' x)
           \<and> DERIV L' ([0, 1, 2, 3 :: real] ! (length [0, 1, 0, 1 :: real] - 1)) :> 0" .
  from h1 h2 h3 c show ?thesis by blast
qed

text \<open>
  C6. Both interpolants are claimed to return \<open>f\<^sub>j\<close> at each node \<open>x\<^sub>j\<close>. On the
  specification's own scenario \<^verbatim>\<open>lagran_interp\<close> raises a NameError in a fresh kernel
  (it returns a name it never assigns), at \<open>x = -4\<close> and at \<open>x = 7\<close> alike, and the
  spline evaluated on its own nodes returns \<open>0\<close>, not \<open>9\<close>, at the last one.
\<close>

theorem interpolants_at_nodes:
  "lagran_interp fresh_kernel [- 9, - 4, - 1, 7] [5, 2, - 2, 9] [- 4] = Inl NameError
   \<and> lagran_interp fresh_kernel [- 9, - 4, - 1, 7] [5, 2, - 2, 9] [7] = Inl NameError
   \<and> spline_maker cramer2 \<lparr>ivals = Some [- 9, - 4, - 1, 7], ipoly = None\<rparr>
        [- 9, - 4, - 1, 7] [5, 2, - 2, 9] [- 9, - 4, - 1, 7] = Inr [5, 2, - 2, 0]"
  by (simp add: eval_defs lagran_interp_def fresh_kernel_def)

text \<open>
  C7. The interpolation functions are claimed to depend on their arguments only. With the
  same nodes, values and query, \<^verbatim>\<open>spline_maker\<close> returns a value, raises an IndexError
  or raises a NameError according to the global \<^verbatim>\<open>ivals\<close> (it sizes its output by
  \<^verbatim>\<open>ivals.size\<close>, not by its parameter \<^verbatim>\<open>qvals\<close>), and \<^verbatim>\<open>lagran_interp\<close> returns
  whatever the global \<^verbatim>\<open>ipoly\<close> holds.
\<close>

theorem interpolation_reads_globals:
  "spline_maker cramer2 \<lparr>ivals = Some [0], ipoly = None\<rparr> [0, 1, 2, 3] [0, 1, 0, 1] [1 / 2]
     = Inr [3 / 4]
   \<and> spline_maker cramer2 \<lparr>ivals = Some [0, 0], ipoly = None\<rparr> [0, 1, 2, 3] [0, 1, 0, 1] [1 / 2]
     = Inl IndexError
   \<and> spline_maker cramer2 \<lparr>ivals = None, ipoly = None\<rparr> [0, 1, 2, 3] [0, 1, 0, 1] [1 / 2]
     = Inl NameError
   \<and> lagran_interp \<lparr>ivals = None, ipoly = None\<rparr> [0, 1] [0, 1] [1 / 2] = Inl NameError
   \<and> lagran_interp \<lparr>ivals = None, ipoly = Some [7, 7]\<rparr> [0, 1] [0, 1] [1 / 2] = Inr [7, 7]"
  by (simp add: eval_defs lagran_interp_def)

text \<open>
  C8. \<^verbatim>\<open>lfun\<close> is claimed to return the Lagrange basis values. Its body is the
  placeholder that returns ones: for the nodes \<open>0, 1\<close>, the index \<open>0\<close> and the query \<open>1\<close> it
  returns \<open>1\<close>, where the basis polynomial \<open>L\<^sub>0\<close> vanishes.
\<close>

theorem lfun_ones_not_lagrange_basis:
  "lfun [0, 1] 0 [1] = [1] \<and> lagrange_basis_spec [0, 1] 0 1 = 0"
  by (simp add: lfun_def lagrange_basis_spec_def upt_rec)




end
